theory Spec2Isabelle
  imports Main "HOL-Library.Sublist"
begin

section \<open>Template data of the Azure Functions extension\<close>

text \<open>
  The development embeds \<^verbatim>\<open>TemplateData.ts\<close>: the class \<^verbatim>\<open>TemplateData\<close> with its
  method \<^verbatim>\<open>getTemplates\<close>, and the resolver \<^verbatim>\<open>getTemplateData\<close> with the helpers
  it calls. JavaScript strings are modelled as \<open>string\<close>, \<^verbatim>\<open>undefined\<close> as \<open>None\<close>,
  a thrown error as \<open>Inl\<close>, and an object used as a dictionary as a partial map of its
  own properties; where the templates map is read, the members it inherits from
  \<^verbatim>\<open>Object.prototype\<close> are part of the model.
\<close>

subsection \<open>Values and errors\<close>

text \<open>An error made with \<^verbatim>\<open>new Error(message)\<close> or thrown by the environment, and a
  \<^verbatim>\<open>TypeError\<close> thrown by the JavaScript engine.\<close>

datatype error = Error string | TypeError string

fun message :: "error \<Rightarrow> string" where
  "message (Error m) = m"
| "message (TypeError m) = m"

text \<open>Raw JSON as read from the feed's files and kept in the persisted global state.\<close>

datatype json =
    JNull
  | JBool bool
  | JNum int
  | JStr string
  | JArr "json list"
  | JObj "(string \<times> json) list"

text \<open>JavaScript truthiness of a raw value, and of a value that may be \<^verbatim>\<open>undefined\<close>.\<close>

fun truthy :: "json \<Rightarrow> bool" where
  "truthy JNull = False"
| "truthy (JBool b) = b"
| "truthy (JNum n) = (n \<noteq> 0)"
| "truthy (JStr s) = (s \<noteq> [])"
| "truthy (JArr xs) = True"
| "truthy (JObj kvs) = True"

fun truthyJson :: "json option \<Rightarrow> bool" where
  "truthyJson None = False"
| "truthyJson (Some v) = truthy v"

fun truthyStr :: "string option \<Rightarrow> bool" where
  "truthyStr None = False"
| "truthyStr (Some s) = (s \<noteq> [])"

subsection \<open>String operations of the source\<close>

text \<open>\<^verbatim>\<open>String.prototype.toLowerCase\<close> on ASCII text: the letters A to Z move to a to z.\<close>

definition toLowerCaseChar :: "char \<Rightarrow> char" where
  "toLowerCaseChar ch =
     (case map_of (zip ''ABCDEFGHIJKLMNOPQRSTUVWXYZ'' ''abcdefghijklmnopqrstuvwxyz'') ch of
        Some l \<Rightarrow> l
      | None \<Rightarrow> ch)"

definition toLowerCase :: "string \<Rightarrow> string" where
  "toLowerCase s = map toLowerCaseChar s"

text \<open>\<^verbatim>\<open>s.split(sep)\<close> for a one-character separator; the result is never empty.\<close>

fun splitJS :: "char \<Rightarrow> string \<Rightarrow> string list" where
  "splitJS sep [] = [[]]"
| "splitJS sep (x # xs) =
     (if x = sep then [] # splitJS sep xs
      else (case splitJS sep xs of
              [] \<Rightarrow> [[x]]
            | w # ws \<Rightarrow> (x # w) # ws))"

text \<open>\<^verbatim>\<open>s.includes(sub)\<close>: \<open>sub\<close> occurs in \<open>s\<close> as a contiguous run.\<close>

definition includesJS :: "string \<Rightarrow> string \<Rightarrow> bool" where
  "includesJS s sub = sublist sub s"

subsection \<open>Constants of the repository\<close>

text \<open>
  The enums \<^verbatim>\<open>ProjectRuntime\<close>, \<^verbatim>\<open>ProjectLanguage\<close>, \<^verbatim>\<open>TemplateFilter\<close>,
  \<^verbatim>\<open>TemplateCategory\<close> and the two release versions are declared in
  \<^verbatim>\<open>constants.ts\<close> and \<^verbatim>\<open>IFunctionTemplate.ts\<close>. Their string values are taken as a
  parameter of every function that reads them. \<open>ProjectRuntime_values\<close> lists the values of
  the enum in declaration order, as \<^verbatim>\<open>Object.keys(ProjectRuntime)\<close> enumerates them.
\<close>

record constants =
  ProjectRuntime_one :: string
  ProjectRuntime_beta :: string
  ProjectRuntime_values :: "string list"
  ProjectLanguage_Java :: string
  ProjectLanguage_JavaScript :: string
  TemplateFilter_All :: string
  TemplateFilter_Core :: string
  TemplateCategory_Core :: string
  v1ReleaseVersion :: string
  betaReleaseVersion :: string

subsection \<open>Templates\<close>

record IFunctionTemplate =
  idT :: string
  name :: string
  language :: string
  categories :: "string list"
  isHttpTrigger :: bool

definition verifiedV1Templates :: "string list" where
  "verifiedV1Templates =
     [''BlobTrigger-JavaScript'',
      ''GenericWebHook-JavaScript'',
      ''GitHubWebHook-JavaScript'',
      ''HttpTrigger-JavaScript'',
      ''HttpTriggerWithParameters-JavaScript'',
      ''ManualTrigger-JavaScript'',
      ''QueueTrigger-JavaScript'',
      ''TimerTrigger-JavaScript'',
      ''Azure.Function.CSharp.HttpTrigger.1.x'',
      ''Azure.Function.CSharp.BlobTrigger.1.x'',
      ''Azure.Function.CSharp.QueueTrigger.1.x'',
      ''Azure.Function.CSharp.TimerTrigger.1.x'']"

definition verifiedV2Templates :: "string list" where
  "verifiedV2Templates =
     [''BlobTrigger-JavaScript'',
      ''HttpTrigger-JavaScript'',
      ''QueueTrigger-JavaScript'',
      ''TimerTrigger-JavaScript'',
      ''Azure.Function.CSharp.HttpTrigger.2.x'',
      ''Azure.Function.CSharp.BlobTrigger.2.x'',
      ''Azure.Function.CSharp.QueueTrigger.2.x'',
      ''Azure.Function.CSharp.TimerTrigger.2.x'']"

definition verifiedJavaTemplates :: "string list" where
  "verifiedJavaTemplates =
     [''HttpTrigger'',
      ''BlobTrigger'',
      ''QueueTrigger'',
      ''TimerTrigger'']"

definition removeLanguageFromId :: "string \<Rightarrow> string" where
  "removeLanguageFromId i = hd (splitJS (CHR ''-'') i)"

subsection \<open>The class TemplateData\<close>

record TemplateData =
  templatesMap :: "string \<rightharpoonup> IFunctionTemplate list"

definition noInternetErrMsg :: string where
  "noInternetErrMsg =
     ''There was an error in retrieving the templates.  Recheck your internet connection and try again.''"

text \<open>
  The templates map is a plain object, as \<^verbatim>\<open>getTemplateData\<close> creates it
  (\<^verbatim>\<open>templatesMap = {}\<close>). \<^verbatim>\<open>this._templatesMap[runtime]\<close> therefore gives the own
  property of that name when there is one, and otherwise, for the names below, the member
  inherited from \<^verbatim>\<open>Object.prototype\<close>. Each of these is a function or an object: it is
  truthy, so it passes the guard \<^verbatim>\<open>!templates\<close>, and it has no \<^verbatim>\<open>filter\<close>, so the
  first use of \<^verbatim>\<open>templates.filter\<close> (in either branch) throws a TypeError.
\<close>

definition objectPrototypeMembers :: "string list" where
  "objectPrototypeMembers =
     [''constructor'',
      ''__defineGetter__'',
      ''__defineSetter__'',
      ''hasOwnProperty'',
      ''__lookupGetter__'',
      ''__lookupSetter__'',
      ''isPrototypeOf'',
      ''propertyIsEnumerable'',
      ''toString'',
      ''valueOf'',
      ''__proto__'',
      ''toLocaleString'']"

text \<open>
  \<^verbatim>\<open>getTemplates(language, runtime = ProjectRuntime.one, templateFilter?)\<close>. An omitted
  argument is \<open>None\<close>. The method is given the object and returns it next to its result, so
  that what the call does to the object is part of the model. \<^verbatim>\<open>Array.prototype.filter\<close>
  builds a new array and \<^verbatim>\<open>find\<close> returns the element found or \<^verbatim>\<open>undefined\<close>.
\<close>

definition runtimeOrDefault :: "constants \<Rightarrow> string option \<Rightarrow> string" where
  "runtimeOrDefault c runtimeArg =
     (case runtimeArg of None \<Rightarrow> ProjectRuntime_one c | Some r \<Rightarrow> r)"

definition getTemplates ::
  "constants \<Rightarrow> TemplateData \<Rightarrow> string \<Rightarrow> string option \<Rightarrow> string option
     \<Rightarrow> (error + IFunctionTemplate list) \<times> TemplateData" where
  "getTemplates c this lang runtimeArg templateFilter =
     (let runtime = runtimeOrDefault c runtimeArg in
      case templatesMap this runtime of
        None \<Rightarrow>
          if runtime \<in> set objectPrototypeMembers
          then (Inl (TypeError ''templates.filter is not a function''), this)
          else (Inl (Error noInternetErrMsg), this)
      | Some templates \<Rightarrow>
          if lang = ProjectLanguage_Java c then
            (let javaTemplates =
                   filter (\<lambda>t. language t = ProjectLanguage_JavaScript c) templates
             in (Inr (filter (\<lambda>t. truthyStr (find (\<lambda>vt. vt = removeLanguageFromId (idT t))
                                                 verifiedJavaTemplates))
                        javaTemplates), this))
          else
            (let filterTemplates =
                   filter (\<lambda>t. toLowerCase (language t) = toLowerCase lang) templates
             in if templateFilter = Some (TemplateFilter_All c) then
                  (Inr filterTemplates, this)
                else if templateFilter = Some (TemplateFilter_Core c) then
                  (Inr (filter (\<lambda>t. find (\<lambda>cat. cat = TemplateCategory_Core c) (categories t)
                                      \<noteq> None)
                          filterTemplates), this)
                else
                  (let verifiedTemplates =
                         (if runtime = ProjectRuntime_one c then verifiedV1Templates
                          else verifiedV2Templates)
                   in (Inr (filter (\<lambda>t. truthyStr (find (\<lambda>vt. vt = idT t) verifiedTemplates))
                              filterTemplates), this))))"

subsection \<open>The feed, the persisted state and the environment\<close>

text \<open>
  The feed (\<^verbatim>\<open>cliFeedJsonResponse\<close>): \<open>tags\<close> gives the release of a feed runtime
  (\<^verbatim>\<open>tags[feedRuntime].release\<close>), \<open>releases\<close> the download locations of a release.
  Both are kept as association lists in the order of their keys.
\<close>

record release =
  templateApiZip :: string
  projectTemplates :: string
  itemTemplates :: string

record cliFeedJsonResponse =
  tags :: "(string \<times> string) list"
  releases :: "(string \<times> release) list"

text \<open>The persisted global state (\<^verbatim>\<open>vscode.Memento\<close>) and the telemetry properties.\<close>

type_synonym Memento = "string \<rightharpoonup> json"

type_synonym properties = "string \<rightharpoonup> string"

text \<open>
  What the functions ask of the world outside the file: the network, the file system, the
  .NET tool chain, the two parsers, the user interface and the settings store. Each
  operation that can throw answers with \<open>Inl\<close>. The answers are those of one call of
  \<^verbatim>\<open>getTemplateData\<close>. \<open>showWarningMessage\<close> answers \<open>True\<close> when the user picks
  "Select version"; \<open>updateGlobalSetting\<close> is given the new value of the template version
  setting.
\<close>

record env =
  tmpdir :: string
  validateDotnetInstalled :: "error + unit"
  downloadFile :: "string \<Rightarrow> string \<Rightarrow> error + unit"
  extractZip :: "string \<Rightarrow> string \<Rightarrow> error + unit"
  readJSON :: "string \<Rightarrow> error + json"
  executeDotnetTemplateCommand :: "string \<Rightarrow> string option \<Rightarrow> string list \<Rightarrow> error + string"
  JSON_parse :: "string \<Rightarrow> error + json"
  getDotnetProjectTemplatePath :: "string \<Rightarrow> string"
  getDotnetItemTemplatePath :: "string \<Rightarrow> string"
  parseScriptTemplates :: "json \<Rightarrow> json \<Rightarrow> json \<Rightarrow> error + IFunctionTemplate list"
  parseDotnetTemplates :: "json \<Rightarrow> string \<Rightarrow> error + IFunctionTemplate list"
  pathExists :: "string \<Rightarrow> error + bool"
  remove :: "string \<Rightarrow> error + unit"
  getFeedRuntime :: "string \<Rightarrow> string"
  showWarningMessage :: "string \<Rightarrow> error + bool"
  showQuickPick :: "string list \<Rightarrow> error + string"
  updateGlobalSetting :: "string \<Rightarrow> error + unit"

text \<open>Sequencing of steps that can throw: the first error ends the sequence.\<close>

definition bindE :: "error + 'a \<Rightarrow> ('a \<Rightarrow> error + 'b) \<Rightarrow> error + 'b" where
  "bindE m f = (case m of Inl e \<Rightarrow> Inl e | Inr x \<Rightarrow> f x)"

fun pathJoin :: "string list \<Rightarrow> string" where
  "pathJoin [] = ''.''"
| "pathJoin [p] = p"
| "pathJoin (p # ps) = p @ ''/'' @ pathJoin ps"

definition templatesKey :: string where
  "templatesKey = ''FunctionTemplates''"

definition configKey :: string where
  "configKey = ''FunctionTemplateConfig''"

definition resourcesKey :: string where
  "resourcesKey = ''FunctionTemplateResources''"

definition dotnetTemplatesKey :: string where
  "dotnetTemplatesKey = ''DotnetTemplates''"

definition templateVersionKey :: string where
  "templateVersionKey = ''templateVersion''"

definition tempPath :: "env \<Rightarrow> string" where
  "tempPath env = pathJoin [tmpdir env, ''vscode-azurefunctions-templates'']"

definition getRuntimeKey :: "constants \<Rightarrow> string \<Rightarrow> string \<Rightarrow> string" where
  "getRuntimeKey c baseKey runtime =
     (if runtime = ProjectRuntime_one c then baseKey else baseKey @ ''.'' @ runtime)"

text \<open>\<^verbatim>\<open>cliFeedJson.releases[templateVersion]\<close> followed by a property read, which throws
  a TypeError when the release is missing.\<close>

definition lookupRelease :: "cliFeedJsonResponse \<Rightarrow> string \<Rightarrow> error + release" where
  "lookupRelease cliFeedJson templateVersion =
     (case map_of (releases cliFeedJson) templateVersion of
        None \<Rightarrow> Inl (TypeError ''Cannot read property of undefined'')
      | Some r \<Rightarrow> Inr r)"

definition lookupTagRelease :: "cliFeedJsonResponse \<Rightarrow> string \<Rightarrow> error + string" where
  "lookupTagRelease cliFeedJson feedRuntime =
     (case map_of (tags cliFeedJson) feedRuntime of
        None \<Rightarrow> Inl (TypeError ''Cannot read property of undefined'')
      | Some r \<Rightarrow> Inr r)"

subsection \<open>Verification of the downloaded templates\<close>

text \<open>The loop of \<^verbatim>\<open>verifyTemplatesByRuntime\<close>: the first verified id that no template
  carries throws.\<close>

fun verifyLoop :: "IFunctionTemplate list \<Rightarrow> string list \<Rightarrow> error + unit" where
  "verifyLoop templates [] = Inr ()"
| "verifyLoop templates (verifiedTemplateId # rest) =
     (if \<not> list_ex (\<lambda>t. idT t = verifiedTemplateId) templates
      then Inl (Error (''Failed to find verified template with id '' @ [CHR 0x22]
                         @ verifiedTemplateId @ [CHR 0x22] @ ''.''))
      else verifyLoop templates rest)"

definition verifyTemplatesByRuntime ::
  "constants \<Rightarrow> env \<Rightarrow> IFunctionTemplate list \<Rightarrow> string \<Rightarrow> error + unit" where
  "verifyTemplatesByRuntime c env templates runtime =
     (let verifiedTemplates =
            (if runtime = ProjectRuntime_one c then verifiedV1Templates else verifiedV2Templates);
          verifiedTemplates' =
            (case validateDotnetInstalled env of
               Inr _ \<Rightarrow> verifiedTemplates
             | Inl _ \<Rightarrow> filter (\<lambda>i. \<not> includesJS i ''CSharp'') verifiedTemplates)
      in verifyLoop templates verifiedTemplates')"

subsection \<open>Reading the cache\<close>

text \<open>The \<^verbatim>\<open>try\<close> block of \<^verbatim>\<open>tryGetParsedTemplateDataFromCache\<close>: the value of the
  local variable \<^verbatim>\<open>templates\<close> at its end.\<close>

definition cachedTemplatesParsed ::
  "constants \<Rightarrow> env \<Rightarrow> string \<Rightarrow> Memento \<Rightarrow> error + IFunctionTemplate list" where
  "cachedTemplatesParsed c env runtime globalState =
     bindE
       (case (globalState (getRuntimeKey c resourcesKey runtime),
              globalState (getRuntimeKey c templatesKey runtime),
              globalState (getRuntimeKey c configKey runtime)) of
          (Some cachedResources, Some cachedTemplates, Some cachedConfig) \<Rightarrow>
            if truthy cachedResources \<and> truthy cachedTemplates \<and> truthy cachedConfig
            then bindE (parseScriptTemplates env cachedResources cachedTemplates cachedConfig)
                   (\<lambda>parsed. Inr ([] @ parsed))
            else Inr []
        | _ \<Rightarrow> Inr [])
       (\<lambda>templates.
          case globalState (getRuntimeKey c dotnetTemplatesKey runtime) of
            Some cachedDotnetTemplates \<Rightarrow>
              if truthy cachedDotnetTemplates
              then bindE (parseDotnetTemplates env cachedDotnetTemplates runtime)
                     (\<lambda>parsed. Inr (templates @ parsed))
              else Inr templates
          | None \<Rightarrow> Inr templates)"

text \<open>The function records an error of the block and then returns \<^verbatim>\<open>undefined\<close> on
  every path: the list built by the block is not returned.\<close>

definition tryGetParsedTemplateDataFromCache ::
  "constants \<Rightarrow> env \<Rightarrow> properties \<Rightarrow> string \<Rightarrow> Memento
     \<Rightarrow> IFunctionTemplate list option \<times> properties" where
  "tryGetParsedTemplateDataFromCache c env props runtime globalState =
     (case cachedTemplatesParsed c env runtime globalState of
        Inl e \<Rightarrow> (None, props(''cacheError'' \<mapsto> message e))
      | Inr templates \<Rightarrow> (None, props))"

subsection \<open>Downloading from the feed\<close>

definition downloadAndExtractTemplates :: "env \<Rightarrow> string \<Rightarrow> string \<Rightarrow> error + unit" where
  "downloadAndExtractTemplates env templateUrl rel =
     (let filePath = pathJoin [tempPath env, ''templates-'' @ rel @ ''.zip'']
      in bindE (downloadFile env templateUrl filePath)
           (\<lambda>_. extractZip env filePath (tempPath env)))"

definition downloadAndExtractCSharpTemplates ::
  "env \<Rightarrow> cliFeedJsonResponse \<Rightarrow> string \<Rightarrow> string \<Rightarrow> error + json" where
  "downloadAndExtractCSharpTemplates env cliFeedJson templateVersion runtime =
     (case validateDotnetInstalled env of
        Inl _ \<Rightarrow> Inr (JArr [])
      | Inr _ \<Rightarrow>
          bindE (lookupRelease cliFeedJson templateVersion) (\<lambda>r1.
          bindE (downloadFile env (projectTemplates r1) (getDotnetProjectTemplatePath env runtime)) (\<lambda>_.
          bindE (lookupRelease cliFeedJson templateVersion) (\<lambda>r2.
          bindE (downloadFile env (itemTemplates r2) (getDotnetItemTemplatePath env runtime)) (\<lambda>_.
          bindE (executeDotnetTemplateCommand env runtime None [''list'']) (\<lambda>out.
          JSON_parse env out))))))"

text \<open>
  The \<^verbatim>\<open>try\<close> block of \<^verbatim>\<open>tryGetParsedTemplateDataFromCliFeed\<close> up to and including the
  call of \<^verbatim>\<open>verifyTemplatesByRuntime\<close>: download, extraction, reading, parsing and
  verification. It yields the parsed templates with the four raw values.
\<close>

definition feedTemplatesVerified ::
  "constants \<Rightarrow> env \<Rightarrow> cliFeedJsonResponse \<Rightarrow> string \<Rightarrow> string
     \<Rightarrow> error + (IFunctionTemplate list \<times> json \<times> json \<times> json \<times> json)" where
  "feedTemplatesVerified c env cliFeedJson templateVersion runtime =
     bindE (lookupRelease cliFeedJson templateVersion) (\<lambda>r.
     bindE (downloadAndExtractTemplates env (templateApiZip r) templateVersion) (\<lambda>_.
     bindE (downloadAndExtractCSharpTemplates env cliFeedJson templateVersion runtime) (\<lambda>rawCSharpTemplates.
     bindE (readJSON env (pathJoin [tempPath env, ''resources'', ''Resources.json''])) (\<lambda>rawResources.
     bindE (readJSON env (pathJoin [tempPath env, ''templates'', ''templates.json''])) (\<lambda>rawTemplates.
     bindE (readJSON env (pathJoin [tempPath env, ''bindings'', ''bindings.json''])) (\<lambda>rawConfig.
     bindE (parseScriptTemplates env rawResources rawTemplates rawConfig) (\<lambda>scriptTemplates.
     bindE (parseDotnetTemplates env rawCSharpTemplates runtime) (\<lambda>dotnetTemplates.
     (let templates = scriptTemplates @ dotnetTemplates in
      bindE (verifyTemplatesByRuntime c env templates runtime) (\<lambda>_.
      Inr (templates, rawTemplates, rawConfig, rawResources, rawCSharpTemplates)))))))))))"

text \<open>The \<^verbatim>\<open>finally\<close> block: the temporary directory is removed when it exists.\<close>

definition removeTempPath :: "env \<Rightarrow> error + unit" where
  "removeTempPath env =
     bindE (pathExists env (tempPath env))
       (\<lambda>ex. if ex then remove env (tempPath env) else Inr ())"

text \<open>
  \<^verbatim>\<open>tryGetParsedTemplateDataFromCliFeed\<close>: the result (or the error thrown), the persisted
  state when one was supplied, and the telemetry properties. An error of the
  \<^verbatim>\<open>finally\<close> block replaces the value returned. The five calls of
  \<^verbatim>\<open>globalState.update\<close> are taken not to throw; the lines written to the output channel
  are left out.
\<close>

definition tryGetParsedTemplateDataFromCliFeed ::
  "constants \<Rightarrow> env \<Rightarrow> properties \<Rightarrow> cliFeedJsonResponse \<Rightarrow> string \<Rightarrow> string \<Rightarrow> Memento option
     \<Rightarrow> (error + IFunctionTemplate list option) \<times> Memento option \<times> properties" where
  "tryGetParsedTemplateDataFromCliFeed c env props cliFeedJson templateVersion runtime globalState =
     (let props1 = props(''templateVersion'' \<mapsto> templateVersion);
          (res, globalState', props2) =
            (case feedTemplatesVerified c env cliFeedJson templateVersion runtime of
               Inr (templates, rawTemplates, rawConfig, rawResources, rawCSharpTemplates) \<Rightarrow>
                 (Some templates,
                  map_option
                    (\<lambda>m. m(templateVersionKey @ ''-'' @ runtime \<mapsto> JStr templateVersion,
                            getRuntimeKey c templatesKey runtime \<mapsto> rawTemplates,
                            getRuntimeKey c configKey runtime \<mapsto> rawConfig,
                            getRuntimeKey c resourcesKey runtime \<mapsto> rawResources,
                            getRuntimeKey c dotnetTemplatesKey runtime \<mapsto> rawCSharpTemplates))
                    globalState,
                  props1)
             | Inl e \<Rightarrow> (None, globalState, props1(''cliFeedError'' \<mapsto> message e)))
      in case removeTempPath env of
           Inl e \<Rightarrow> (Inl e, globalState', props2)
         | Inr _ \<Rightarrow> (Inr res, globalState', props2))"

subsection \<open>The template version to ask the feed for\<close>

text \<open>
  The \<^verbatim>\<open>try\<close> block of \<^verbatim>\<open>tryGetTemplateVersionSetting\<close> when a feed is at hand. The
  second component is the user's template version setting afterwards.
\<close>

definition resolveTemplateVersion ::
  "env \<Rightarrow> cliFeedJsonResponse \<Rightarrow> string \<Rightarrow> string option \<Rightarrow> (error + string) \<times> string option" where
  "resolveTemplateVersion env cliFeedJson feedRuntime userTemplateVersion =
     (case (case userTemplateVersion of
              Some u \<Rightarrow> if u \<noteq> [] then Inr u else lookupTagRelease cliFeedJson feedRuntime
            | None \<Rightarrow> lookupTagRelease cliFeedJson feedRuntime) of
        Inl e \<Rightarrow> (Inl e, userTemplateVersion)
      | Inr templateVersion \<Rightarrow>
          if map_of (releases cliFeedJson) templateVersion \<noteq> None
          then (Inr templateVersion, userTemplateVersion)
          else
            (case showWarningMessage env
                    (''Failed to retrieve Azure Functions templates for version '' @ [CHR 0x22]
                       @ templateVersion @ [CHR 0x22] @ ''.'') of
               Inl e \<Rightarrow> (Inl e, userTemplateVersion)
             | Inr True \<Rightarrow>
                 (case showQuickPick env (map fst (releases cliFeedJson)) of
                    Inl e \<Rightarrow> (Inl e, userTemplateVersion)
                  | Inr label \<Rightarrow>
                      (case updateGlobalSetting env label of
                         Inl e \<Rightarrow> (Inl e, userTemplateVersion)
                       | Inr _ \<Rightarrow> (Inr label, Some label)))
             | Inr False \<Rightarrow>
                 (case lookupTagRelease cliFeedJson feedRuntime of
                    Inl e \<Rightarrow> (Inl e, userTemplateVersion)
                  | Inr latest \<Rightarrow>
                      (case updateGlobalSetting env [] of
                         Inl e \<Rightarrow> (Inl e, userTemplateVersion)
                       | Inr _ \<Rightarrow> (Inr latest, Some [])))))"

definition tryGetTemplateVersionSetting ::
  "env \<Rightarrow> properties \<Rightarrow> cliFeedJsonResponse option \<Rightarrow> string \<Rightarrow> string option
     \<Rightarrow> string option \<times> string option \<times> properties" where
  "tryGetTemplateVersionSetting env props cliFeedJson runtime userTemplateVersion =
     (let feedRuntime = getFeedRuntime env runtime;
          props1 = (case userTemplateVersion of
                      Some u \<Rightarrow> if u \<noteq> [] then props(''userTemplateVersion'' \<mapsto> u) else props
                    | None \<Rightarrow> props)
      in case cliFeedJson of
           None \<Rightarrow> (None, userTemplateVersion, props1)
         | Some feed \<Rightarrow>
             (case resolveTemplateVersion env feed feedRuntime userTemplateVersion of
                (Inl e, setting) \<Rightarrow> (None, setting, props1(''userTemplateVersion'' \<mapsto> message e))
              | (Inr templateVersion, setting) \<Rightarrow> (Some templateVersion, setting, props1)))"

subsection \<open>The resolver getTemplateData\<close>

text \<open>
  The variables of one run of the callback of \<^verbatim>\<open>getTemplateData\<close>: the local
  \<^verbatim>\<open>parsedTemplatesByRuntime\<close>, the persisted state when one was supplied, the telemetry
  properties, and an error that left the callback. \<open>attempts\<close> logs every call of a
  source of templates with what it returned, in the order of the calls.
\<close>

record resolution =
  parsedTemplatesByRuntime :: "IFunctionTemplate list option"
  globalStateR :: "Memento option"
  propertiesR :: properties
  attempts :: "(string \<times> IFunctionTemplate list option) list"
  thrown :: "error option"

definition startResolution :: "Memento option \<Rightarrow> properties \<Rightarrow> resolution" where
  "startResolution globalState props =
     \<lparr>parsedTemplatesByRuntime = None, globalStateR = globalState, propertiesR = props,
      attempts = [], thrown = None\<rparr>"

text \<open>A call of the cache and a call of the feed, each followed by the assignment of
  \<^verbatim>\<open>templateSource\<close>, which an error of the call skips.\<close>

definition attemptCache ::
  "constants \<Rightarrow> env \<Rightarrow> string \<Rightarrow> string \<Rightarrow> Memento \<Rightarrow> resolution \<Rightarrow> resolution" where
  "attemptCache c env source runtime globalState r =
     (case tryGetParsedTemplateDataFromCache c env (propertiesR r) runtime globalState of
        (res, props) \<Rightarrow>
          r\<lparr>parsedTemplatesByRuntime := res,
            propertiesR := props(''templateSource'' \<mapsto> source),
            attempts := attempts r @ [(source, res)]\<rparr>)"

definition attemptCliFeed ::
  "constants \<Rightarrow> env \<Rightarrow> string \<Rightarrow> cliFeedJsonResponse \<Rightarrow> string \<Rightarrow> string \<Rightarrow> resolution
     \<Rightarrow> resolution" where
  "attemptCliFeed c env source cliFeedJson templateVersion runtime r =
     (case tryGetParsedTemplateDataFromCliFeed c env (propertiesR r) cliFeedJson templateVersion
             runtime (globalStateR r) of
        (Inl e, globalState, props) \<Rightarrow>
          r\<lparr>globalStateR := globalState, propertiesR := props,
            attempts := attempts r @ [(source, None)], thrown := Some e\<rparr>
      | (Inr res, globalState, props) \<Rightarrow>
          r\<lparr>parsedTemplatesByRuntime := res, globalStateR := globalState,
            propertiesR := props(''templateSource'' \<mapsto> source),
            attempts := attempts r @ [(source, res)]\<rparr>)"

text \<open>The four numbered steps of the callback. An array, also an empty one, is truthy.\<close>

definition tier1 :: "constants \<Rightarrow> env \<Rightarrow> string \<Rightarrow> string option \<Rightarrow> resolution \<Rightarrow> resolution" where
  "tier1 c env runtime templateVersion r =
     (case globalStateR r of
        None \<Rightarrow> r
      | Some globalState \<Rightarrow>
          if globalState (templateVersionKey @ ''-'' @ runtime) = map_option JStr templateVersion
          then attemptCache c env ''matchingCache'' runtime globalState r
          else r)"

definition tier2 ::
  "constants \<Rightarrow> env \<Rightarrow> cliFeedJsonResponse option \<Rightarrow> string \<Rightarrow> string option \<Rightarrow> resolution
     \<Rightarrow> resolution" where
  "tier2 c env cliFeedJson runtime templateVersion r =
     (case (parsedTemplatesByRuntime r, cliFeedJson, templateVersion) of
        (None, Some feed, Some v) \<Rightarrow>
          if v \<noteq> [] then attemptCliFeed c env ''cliFeed'' feed v runtime r else r
      | _ \<Rightarrow> r)"

definition tier3 :: "constants \<Rightarrow> env \<Rightarrow> string \<Rightarrow> resolution \<Rightarrow> resolution" where
  "tier3 c env runtime r =
     (case (parsedTemplatesByRuntime r, globalStateR r) of
        (None, Some globalState) \<Rightarrow> attemptCache c env ''mismatchCache'' runtime globalState r
      | _ \<Rightarrow> r)"

definition tier4 ::
  "constants \<Rightarrow> env \<Rightarrow> cliFeedJsonResponse option \<Rightarrow> string \<Rightarrow> resolution \<Rightarrow> resolution" where
  "tier4 c env cliFeedJson runtime r =
     (case (parsedTemplatesByRuntime r, cliFeedJson) of
        (None, Some feed) \<Rightarrow>
          (let backupVersion =
                 (if runtime = ProjectRuntime_one c then v1ReleaseVersion c
                  else betaReleaseVersion c)
           in attemptCliFeed c env ''backupCliFeed'' feed backupVersion runtime r)
      | _ \<Rightarrow> r)"

text \<open>An error thrown by a step ends the callback: the later steps do not run.\<close>

definition unlessThrown :: "(resolution \<Rightarrow> resolution) \<Rightarrow> resolution \<Rightarrow> resolution" where
  "unlessThrown step r = (if thrown r = None then step r else r)"

definition resolveTemplates ::
  "constants \<Rightarrow> env \<Rightarrow> cliFeedJsonResponse option \<Rightarrow> string \<Rightarrow> string option \<Rightarrow> resolution
     \<Rightarrow> resolution" where
  "resolveTemplates c env cliFeedJson runtime templateVersion r =
     unlessThrown (tier4 c env cliFeedJson runtime)
       (unlessThrown (tier3 c env runtime)
         (unlessThrown (tier2 c env cliFeedJson runtime templateVersion)
           (unlessThrown (tier1 c env runtime templateVersion) r)))"

text \<open>The end of the callback: the entry of the runtime is written when a source gave a
  result.\<close>

definition storeResult ::
  "string \<Rightarrow> (string \<rightharpoonup> IFunctionTemplate list) \<Rightarrow> resolution
     \<Rightarrow> (string \<rightharpoonup> IFunctionTemplate list) \<times> properties" where
  "storeResult runtime tm r =
     (case thrown r of
        Some e \<Rightarrow> (tm, propertiesR r)
      | None \<Rightarrow>
          (case parsedTemplatesByRuntime r of
             Some parsed \<Rightarrow> (tm(runtime \<mapsto> parsed), propertiesR r)
           | None \<Rightarrow> (tm, (propertiesR r)(''templateSource'' \<mapsto> ''None''))))"

text \<open>
  The callback for one runtime. It is run by \<^verbatim>\<open>callWithTelemetryAndErrorHandling\<close> of
  the package vscode-azureextensionui, which reports an error of the callback to telemetry
  and does not throw it again. The result is the templates map, the persisted state, the
  user's template version setting and the telemetry properties of the run.
\<close>

definition getTemplateDataCallback ::
  "constants \<Rightarrow> env \<Rightarrow> cliFeedJsonResponse option \<Rightarrow> string
     \<Rightarrow> (string \<rightharpoonup> IFunctionTemplate list) \<times> Memento option \<times> string option \<times> properties list
     \<Rightarrow> (string \<rightharpoonup> IFunctionTemplate list) \<times> Memento option \<times> string option \<times> properties list"
  where
  "getTemplateDataCallback c env cliFeedJson runtime s =
     (case s of (tm, globalState, setting, telemetry) \<Rightarrow>
        (case tryGetTemplateVersionSetting env
                [''isActivationEvent'' \<mapsto> ''true'', ''runtime'' \<mapsto> runtime]
                cliFeedJson runtime setting of
           (templateVersion, setting', props) \<Rightarrow>
             (let r = resolveTemplates c env cliFeedJson runtime templateVersion
                        (startResolution globalState props)
              in case storeResult runtime tm r of
                   (tm', props') \<Rightarrow> (tm', globalStateR r, setting', telemetry @ [props']))))"

text \<open>
  \<^verbatim>\<open>getTemplateData(globalState?)\<close>: \<open>cliFeedJson\<close> is what \<^verbatim>\<open>tryGetCliFeedJson\<close>
  returned and \<open>setting\<close> the user's template version setting at the start.
\<close>

definition getTemplateData ::
  "constants \<Rightarrow> env \<Rightarrow> cliFeedJsonResponse option \<Rightarrow> Memento option \<Rightarrow> string option
     \<Rightarrow> TemplateData \<times> Memento option \<times> string option \<times> properties list" where
  "getTemplateData c env cliFeedJson globalState setting =
     (case fold (getTemplateDataCallback c env cliFeedJson) (ProjectRuntime_values c)
             (Map.empty, globalState, setting, []) of
        (tm, globalState', setting', telemetry) \<Rightarrow>
          (\<lparr>templatesMap = tm\<rparr>, globalState', setting', telemetry))"

subsection \<open>The shape of a run of the four steps\<close>

text \<open>
  What holds of the log after each step: the sources called so far are among the given ones,
  in their order; as long as no source gave a result every call returned \<^verbatim>\<open>undefined\<close>;
  and once there is a result it is not empty, it is what the last call returned, and every
  call before returned \<^verbatim>\<open>undefined\<close>. \<open>fallbackStep\<close> is what one step may do: nothing
  to the result, the log and the error, or, when there is no result and no error yet, one
  more call whose result is not an empty list.
\<close>

definition fallbackInv :: "string list \<Rightarrow> resolution \<Rightarrow> bool" where
  "fallbackInv sources r \<longleftrightarrow>
     subseq (map fst (attempts r)) sources \<and>
     (case parsedTemplatesByRuntime r of
        None \<Rightarrow> list_all (\<lambda>a. snd a = None) (attempts r)
      | Some ts \<Rightarrow>
          ts \<noteq> [] \<and> attempts r \<noteq> [] \<and> snd (last (attempts r)) = Some ts \<and>
          list_all (\<lambda>a. snd a = None) (butlast (attempts r)) \<and> thrown r = None)"

definition fallbackStep :: "string \<Rightarrow> resolution \<Rightarrow> resolution \<Rightarrow> bool" where
  "fallbackStep source r r' \<longleftrightarrow>
     (parsedTemplatesByRuntime r' = parsedTemplatesByRuntime r \<and> attempts r' = attempts r \<and>
      thrown r' = thrown r) \<or>
     (parsedTemplatesByRuntime r = None \<and> thrown r = None \<and>
      attempts r' = attempts r @ [(source, parsedTemplatesByRuntime r')] \<and>
      parsedTemplatesByRuntime r' \<noteq> Some [] \<and>
      (parsedTemplatesByRuntime r' \<noteq> None \<longrightarrow> thrown r' = None))"

subsection \<open>Sample inputs\<close>

text \<open>
  Concrete inputs at which the functions are evaluated below: the values of the enums, a
  feed with one release per runtime, an environment in which every operation succeeds, one
  in which downloads fail, one in which downloads fail and the temporary directory cannot
  be removed, one without the .NET CLI, and a persisted state left by an earlier successful
  download for runtime \<open>''~1''\<close>.
\<close>

definition sampleConstants :: constants where
  "sampleConstants =
     \<lparr>ProjectRuntime_one = ''~1'', ProjectRuntime_beta = ''beta'',
      ProjectRuntime_values = [''~1'', ''beta''],
      ProjectLanguage_Java = ''Java'', ProjectLanguage_JavaScript = ''JavaScript'',
      TemplateFilter_All = ''All'', TemplateFilter_Core = ''Core'',
      TemplateCategory_Core = ''$temp_category_core'',
      v1ReleaseVersion = ''1.3.0'', betaReleaseVersion = ''2.0.1''\<rparr>"

definition mkTemplate :: "string \<Rightarrow> string \<Rightarrow> string list \<Rightarrow> IFunctionTemplate" where
  "mkTemplate i l cs =
     \<lparr>idT = i, name = i, language = l, categories = cs, isHttpTrigger = False\<rparr>"

definition sampleScriptTemplates :: "IFunctionTemplate list" where
  "sampleScriptTemplates =
     [mkTemplate ''BlobTrigger-JavaScript'' ''JavaScript'' [''$temp_category_core''],
      mkTemplate ''GenericWebHook-JavaScript'' ''JavaScript'' [],
      mkTemplate ''GitHubWebHook-JavaScript'' ''JavaScript'' [],
      mkTemplate ''HttpTrigger-JavaScript'' ''JavaScript'' [''$temp_category_core''],
      mkTemplate ''HttpTriggerWithParameters-JavaScript'' ''JavaScript'' [],
      mkTemplate ''ManualTrigger-JavaScript'' ''JavaScript'' [],
      mkTemplate ''QueueTrigger-JavaScript'' ''JavaScript'' [''$temp_category_core''],
      mkTemplate ''TimerTrigger-JavaScript'' ''JavaScript'' [''$temp_category_core'']]"

definition sampleDotnetTemplates :: "string \<Rightarrow> IFunctionTemplate list" where
  "sampleDotnetTemplates runtime =
     (let v = (if runtime = ''~1'' then ''1.x'' else ''2.x'')
      in [mkTemplate (''Azure.Function.CSharp.HttpTrigger.'' @ v) ''C#'' [],
          mkTemplate (''Azure.Function.CSharp.BlobTrigger.'' @ v) ''C#'' [],
          mkTemplate (''Azure.Function.CSharp.QueueTrigger.'' @ v) ''C#'' [],
          mkTemplate (''Azure.Function.CSharp.TimerTrigger.'' @ v) ''C#'' []])"

definition sampleFeed :: cliFeedJsonResponse where
  "sampleFeed =
     \<lparr>tags = [(''v1'', ''1.3.0''), (''v2'', ''2.0.1'')],
      releases =
        [(''1.3.0'', \<lparr>templateApiZip = ''https://feed/1.3.0/api.zip'',
                      projectTemplates = ''https://feed/1.3.0/project.nupkg'',
                      itemTemplates = ''https://feed/1.3.0/item.nupkg''\<rparr>),
         (''2.0.1'', \<lparr>templateApiZip = ''https://feed/2.0.1/api.zip'',
                      projectTemplates = ''https://feed/2.0.1/project.nupkg'',
                      itemTemplates = ''https://feed/2.0.1/item.nupkg''\<rparr>)]\<rparr>"

definition sampleEnv :: env where
  "sampleEnv =
     \<lparr>tmpdir = ''/tmp'',
      validateDotnetInstalled = Inr (),
      downloadFile = (\<lambda>url path. Inr ()),
      extractZip = (\<lambda>file dir. Inr ()),
      readJSON = (\<lambda>path. Inr (JObj [])),
      executeDotnetTemplateCommand = (\<lambda>runtime dir args. Inr ''[]''),
      JSON_parse = (\<lambda>text. Inr (JArr [])),
      getDotnetProjectTemplatePath = (\<lambda>runtime. ''/ext/projectTemplates-'' @ runtime @ ''.nupkg''),
      getDotnetItemTemplatePath = (\<lambda>runtime. ''/ext/itemTemplates-'' @ runtime @ ''.nupkg''),
      parseScriptTemplates = (\<lambda>resources templates config. Inr sampleScriptTemplates),
      parseDotnetTemplates = (\<lambda>templates runtime. Inr (sampleDotnetTemplates runtime)),
      pathExists = (\<lambda>path. Inr True),
      remove = (\<lambda>path. Inr ()),
      getFeedRuntime = (\<lambda>runtime. if runtime = ''~1'' then ''v1'' else ''v2''),
      showWarningMessage = (\<lambda>text. Inr False),
      showQuickPick = (\<lambda>picks. Inl (Error ''Operation cancelled.'')),
      updateGlobalSetting = (\<lambda>v. Inr ())\<rparr>"

definition offlineEnv :: env where
  "offlineEnv = sampleEnv\<lparr>downloadFile := (\<lambda>url path. Inl (Error ''getaddrinfo ENOTFOUND''))\<rparr>"

definition brokenCleanupEnv :: env where
  "brokenCleanupEnv =
     offlineEnv\<lparr>remove := (\<lambda>path. Inl (Error ''EPERM: operation not permitted''))\<rparr>"

definition noDotnetEnv :: env where
  "noDotnetEnv =
     sampleEnv\<lparr>validateDotnetInstalled := Inl (Error ''spawn dotnet ENOENT''),
               parseDotnetTemplates := (\<lambda>templates runtime. Inr [])\<rparr>"

definition sampleMemento :: Memento where
  "sampleMemento =
     [''templateVersion-~1'' \<mapsto> JStr ''1.3.0'',
      ''FunctionTemplates'' \<mapsto> JArr [JObj []],
      ''FunctionTemplateConfig'' \<mapsto> JObj [],
      ''FunctionTemplateResources'' \<mapsto> JObj [],
      ''DotnetTemplates'' \<mapsto> JArr []]"

definition sampleData :: TemplateData where
  "sampleData =
     \<lparr>templatesMap =
        [''beta'' \<mapsto> sampleScriptTemplates @ sampleDotnetTemplates ''beta'', ''~1'' \<mapsto> []]\<rparr>"

section \<open>Properties\<close>

subsection \<open>Strings, lists of verified ids and the verification loop\<close>

lemma splitJS_not_Nil: "splitJS sep s \<noteq> []"
  by (induction s) (auto split: list.splits)

lemma removeLanguageFromId_takeWhile:
  "removeLanguageFromId i = takeWhile (\<lambda>ch. ch \<noteq> CHR ''-'') i"
  unfolding removeLanguageFromId_def
  by (induction i) (auto split: list.splits simp: splitJS_not_Nil)

lemma truthyStr_find_iff:
  "[] \<notin> set vs \<Longrightarrow> truthyStr (find (\<lambda>vt. vt = x) vs) \<longleftrightarrow> x \<in> set vs"
  by (induction vs) auto

lemma verifiedV1_no_empty: "[] \<notin> set verifiedV1Templates"
  by (simp add: verifiedV1Templates_def)

lemma verifiedV2_no_empty: "[] \<notin> set verifiedV2Templates"
  by (simp add: verifiedV2Templates_def)

lemma verifiedJava_no_empty: "[] \<notin> set verifiedJavaTemplates"
  by (simp add: verifiedJavaTemplates_def)

lemma verifyLoop_ok_iff:
  "verifyLoop ts vs = Inr () \<longleftrightarrow> (\<forall>v\<in>set vs. v \<in> idT ` set ts)"
  by (induction vs) (auto simp: list_ex_iff)

lemma BlobTrigger_not_CSharp: "\<not> includesJS ''BlobTrigger-JavaScript'' ''CSharp''"
  unfolding includesJS_def by code_simp

lemma verified_nonempty:
  assumes "verifyTemplatesByRuntime c env ts rt = Inr ()"
  shows "ts \<noteq> []"
proof -
  have "''BlobTrigger-JavaScript'' \<in> idT ` set ts"
    using assms BlobTrigger_not_CSharp
    by (auto simp: verifyTemplatesByRuntime_def Let_def verifyLoop_ok_iff
        verifiedV1Templates_def verifiedV2Templates_def split: sum.splits if_splits)
  then show ?thesis by auto
qed

subsection \<open>Sequencing, the feed and the cache\<close>

lemma bindE_Inr:
  "bindE m f = Inr y \<longleftrightarrow> (\<exists>x. m = Inr x \<and> f x = Inr y)"
  by (cases m) (auto simp: bindE_def)

lemma bindE_Inl:
  "bindE m f = Inl e \<longleftrightarrow> m = Inl e \<or> (\<exists>x. m = Inr x \<and> f x = Inl e)"
  by (cases m) (auto simp: bindE_def)

lemma feedTemplatesVerified_verified:
  assumes "feedTemplatesVerified c env feed v rt = Inr (ts, rawT, rawC, rawR, rawCs)"
  shows "verifyTemplatesByRuntime c env ts rt = Inr ()"
  using assms
  by (auto simp: feedTemplatesVerified_def bindE_Inr Let_def)

lemma feedTemplatesVerified_steps:
  assumes "feedTemplatesVerified c env feed v rt = Inr (ts, rawT, rawC, rawR, rawCs)"
  shows "\<exists>rel sts dts.
           lookupRelease feed v = Inr rel
         \<and> downloadAndExtractTemplates env (templateApiZip rel) v = Inr ()
         \<and> downloadAndExtractCSharpTemplates env feed v rt = Inr rawCs
         \<and> readJSON env (pathJoin [tempPath env, ''resources'', ''Resources.json'']) = Inr rawR
         \<and> readJSON env (pathJoin [tempPath env, ''templates'', ''templates.json'']) = Inr rawT
         \<and> readJSON env (pathJoin [tempPath env, ''bindings'', ''bindings.json'']) = Inr rawC
         \<and> parseScriptTemplates env rawR rawT rawC = Inr sts
         \<and> parseDotnetTemplates env rawCs rt = Inr dts
         \<and> ts = sts @ dts
         \<and> verifyTemplatesByRuntime c env ts rt = Inr ()"
  using assms
  by (auto simp: feedTemplatesVerified_def bindE_Inr Let_def)

lemma cliFeed_result_nonempty:
  assumes "fst (tryGetParsedTemplateDataFromCliFeed c env props feed v rt gs) = Inr (Some ts)"
  shows "ts \<noteq> []"
  using assms
  by (auto simp: tryGetParsedTemplateDataFromCliFeed_def Let_def
      split: sum.splits prod.splits
      dest!: feedTemplatesVerified_verified verified_nonempty)

lemma cliFeed_ok:
  assumes "removeTempPath env = Inr ()"
      and "feedTemplatesVerified c env feed v rt = Inr (ts, rawT, rawC, rawR, rawCs)"
  shows "tryGetParsedTemplateDataFromCliFeed c env props feed v rt gs =
           (Inr (Some ts),
            map_option
              (\<lambda>m. m(templateVersionKey @ ''-'' @ rt \<mapsto> JStr v,
                      getRuntimeKey c templatesKey rt \<mapsto> rawT,
                      getRuntimeKey c configKey rt \<mapsto> rawC,
                      getRuntimeKey c resourcesKey rt \<mapsto> rawR,
                      getRuntimeKey c dotnetTemplatesKey rt \<mapsto> rawCs)) gs,
            props(''templateVersion'' \<mapsto> v))"
  using assms by (simp add: tryGetParsedTemplateDataFromCliFeed_def)

lemma cliFeed_fail:
  assumes "removeTempPath env = Inr ()"
      and "feedTemplatesVerified c env feed v rt = Inl e"
  shows "tryGetParsedTemplateDataFromCliFeed c env props feed v rt gs =
           (Inr None, gs, props(''templateVersion'' \<mapsto> v, ''cliFeedError'' \<mapsto> message e))"
  using assms by (simp add: tryGetParsedTemplateDataFromCliFeed_def)

lemma tryGetParsedTemplateDataFromCache_None:
  "fst (tryGetParsedTemplateDataFromCache c env props rt gs) = None"
  by (simp add: tryGetParsedTemplateDataFromCache_def split: sum.splits)

lemma attemptCache_obs:
  "parsedTemplatesByRuntime (attemptCache c env s rt gs r) = None"
  "attempts (attemptCache c env s rt gs r) = attempts r @ [(s, None)]"
  "thrown (attemptCache c env s rt gs r) = thrown r"
  "globalStateR (attemptCache c env s rt gs r) = globalStateR r"
  using tryGetParsedTemplateDataFromCache_None [of c env "propertiesR r" rt gs]
  by (auto simp: attemptCache_def split: prod.splits)

lemma attemptCliFeed_ok:
  assumes "removeTempPath env = Inr ()"
      and "feedTemplatesVerified c env feed v rt = Inr (ts, rawT, rawC, rawR, rawCs)"
  shows "parsedTemplatesByRuntime (attemptCliFeed c env s feed v rt r) = Some ts"
    and "attempts (attemptCliFeed c env s feed v rt r) = attempts r @ [(s, Some ts)]"
    and "thrown (attemptCliFeed c env s feed v rt r) = thrown r"
  by (simp_all add: attemptCliFeed_def cliFeed_ok [OF assms])

lemma attemptCliFeed_fail:
  assumes "removeTempPath env = Inr ()"
      and "feedTemplatesVerified c env feed v rt = Inl e"
  shows "parsedTemplatesByRuntime (attemptCliFeed c env s feed v rt r) = None"
    and "attempts (attemptCliFeed c env s feed v rt r) = attempts r @ [(s, None)]"
    and "thrown (attemptCliFeed c env s feed v rt r) = thrown r"
    and "globalStateR (attemptCliFeed c env s feed v rt r) = globalStateR r"
  by (simp_all add: attemptCliFeed_def cliFeed_fail [OF assms])

lemma attemptCliFeed_clean:
  assumes "removeTempPath env = Inr ()"
  shows "thrown (attemptCliFeed c env s feed v rt r) = thrown r"
    and "attempts (attemptCliFeed c env s feed v rt r)
           = attempts r @ [(s, parsedTemplatesByRuntime (attemptCliFeed c env s feed v rt r))]"
proof -
  show "thrown (attemptCliFeed c env s feed v rt r) = thrown r"
  proof (cases "feedTemplatesVerified c env feed v rt")
    case (Inl e)
    then show ?thesis by (simp add: attemptCliFeed_fail [OF assms])
  next
    case (Inr x)
    then show ?thesis by (cases x) (simp add: attemptCliFeed_ok [OF assms])
  qed
  show "attempts (attemptCliFeed c env s feed v rt r)
           = attempts r @ [(s, parsedTemplatesByRuntime (attemptCliFeed c env s feed v rt r))]"
  proof (cases "feedTemplatesVerified c env feed v rt")
    case (Inl e)
    then show ?thesis by (simp add: attemptCliFeed_fail [OF assms])
  next
    case (Inr x)
    then show ?thesis by (cases x) (simp add: attemptCliFeed_ok [OF assms])
  qed
qed

lemma cliFeed_throw:
  assumes "removeTempPath env = Inl e'"
  shows "fst (tryGetParsedTemplateDataFromCliFeed c env props feed v rt gs) = Inl e'"
  using assms
  by (simp add: tryGetParsedTemplateDataFromCliFeed_def Let_def split: sum.splits prod.splits)

lemma attemptCliFeed_throw:
  assumes "removeTempPath env = Inl e'"
  shows "thrown (attemptCliFeed c env s feed v rt r) = Some e'"
    and "attempts (attemptCliFeed c env s feed v rt r) = attempts r @ [(s, None)]"
    and "parsedTemplatesByRuntime (attemptCliFeed c env s feed v rt r)
           = parsedTemplatesByRuntime r"
  using cliFeed_throw [OF assms, of c "propertiesR r" feed v rt "globalStateR r"]
  by (auto simp: attemptCliFeed_def split: prod.splits sum.splits)

subsection \<open>The four steps keep the shape of the run\<close>

lemma fallbackInv_step:
  assumes "fallbackInv sources r" and "fallbackStep source r r'"
  shows "fallbackInv (sources @ [source]) r'"
  using assms
  by (auto simp: fallbackInv_def fallbackStep_def split: option.splits
      intro: subseq_order.order_trans [OF _ list_emb_append2 [OF subseq_order.order_refl]])

lemma attemptCliFeed_step:
  assumes "parsedTemplatesByRuntime r = None" and "thrown r = None"
  shows "fallbackStep s r (attemptCliFeed c env s feed v rt r)"
proof (cases "tryGetParsedTemplateDataFromCliFeed c env (propertiesR r) feed v rt (globalStateR r)")
  case (fields res gs' props')
  show ?thesis
  proof (cases res)
    case (Inl e)
    with fields assms show ?thesis
      by (simp add: attemptCliFeed_def fallbackStep_def)
  next
    case (Inr x)
    with fields cliFeed_result_nonempty [of c env "propertiesR r" feed v rt "globalStateR r"]
    have "x \<noteq> Some []" by auto
    with Inr fields assms show ?thesis
      by (simp add: attemptCliFeed_def fallbackStep_def)
  qed
qed

lemma tier1_step:
  "parsedTemplatesByRuntime r = None \<Longrightarrow>
   fallbackStep ''matchingCache'' r (unlessThrown (tier1 c env rt tv) r)"
  by (auto simp: unlessThrown_def tier1_def fallbackStep_def attemptCache_obs
      split: option.splits)

lemma tier2_step:
  "fallbackStep ''cliFeed'' r (unlessThrown (tier2 c env feed rt tv) r)"
proof (cases "thrown r = None \<and> parsedTemplatesByRuntime r = None")
  case True
  then show ?thesis
    using attemptCliFeed_step [of r "''cliFeed''" c env _ _ rt]
    by (auto simp: unlessThrown_def tier2_def split: option.splits)
       (simp add: fallbackStep_def)+
next
  case False
  then show ?thesis
    by (auto simp: unlessThrown_def tier2_def fallbackStep_def split: option.splits)
qed

lemma tier3_step:
  "fallbackStep ''mismatchCache'' r (unlessThrown (tier3 c env rt) r)"
  by (auto simp: unlessThrown_def tier3_def fallbackStep_def attemptCache_obs
      split: option.splits)

lemma tier4_step:
  "fallbackStep ''backupCliFeed'' r (unlessThrown (tier4 c env feed rt) r)"
proof (cases "thrown r = None \<and> parsedTemplatesByRuntime r = None")
  case True
  then show ?thesis
    using attemptCliFeed_step [of r "''backupCliFeed''" c env _ _ rt]
    by (auto simp: unlessThrown_def tier4_def Let_def split: option.splits)
       (simp add: fallbackStep_def)+
next
  case False
  then show ?thesis
    by (auto simp: unlessThrown_def tier4_def fallbackStep_def split: option.splits)
qed

lemma resolveTemplates_inv:
  "fallbackInv [''matchingCache'', ''cliFeed'', ''mismatchCache'', ''backupCliFeed'']
     (resolveTemplates c env feed rt tv (startResolution gs props))"
proof -
  let ?r0 = "startResolution gs props"
  have i0: "fallbackInv [] ?r0"
    by (simp add: fallbackInv_def startResolution_def)
  have p0: "parsedTemplatesByRuntime ?r0 = None"
    by (simp add: startResolution_def)
  note i1 = fallbackInv_step [OF i0 tier1_step [OF p0, of c env rt tv]]
  note i2 = fallbackInv_step [OF i1 tier2_step [of _ c env feed rt tv]]
  note i3 = fallbackInv_step [OF i2 tier3_step [of _ c env rt]]
  note i4 = fallbackInv_step [OF i3 tier4_step [of _ c env feed rt]]
  show ?thesis using i4 by (simp add: resolveTemplates_def)
qed

lemma tiers_keep_thrown:
  assumes "removeTempPath env = Inr ()"
  shows "thrown (unlessThrown (tier1 c env rt tv) r) = thrown r"
    and "thrown (unlessThrown (tier2 c env feedOpt rt tv) r) = thrown r"
    and "thrown (unlessThrown (tier3 c env rt) r) = thrown r"
    and "thrown (unlessThrown (tier4 c env feedOpt rt) r) = thrown r"
  by (auto simp: unlessThrown_def tier1_def tier2_def tier3_def tier4_def Let_def
      attemptCache_obs attemptCliFeed_clean [OF assms] split: option.splits)

lemma resolveTemplates_not_thrown:
  assumes "removeTempPath env = Inr ()"
  shows "thrown (resolveTemplates c env feedOpt rt tv (startResolution gs props)) = None"
  by (simp add: resolveTemplates_def tiers_keep_thrown [OF assms] startResolution_def)

lemma degrades_after_feed_failure:
  assumes cleanup: "removeTempPath env = Inr ()"
      and fail: "feedTemplatesVerified c env feed v rt = Inl e"
      and v: "v \<noteq> []"
  shows "\<exists>pre. attempts (resolveTemplates c env (Some feed) rt (Some v) (startResolution gs props))
           = pre @ [(''cliFeed'', None)]
               @ (case gs of None \<Rightarrow> [] | Some g \<Rightarrow> [(''mismatchCache'', None)])
               @ [(''backupCliFeed'',
                   parsedTemplatesByRuntime
                     (resolveTemplates c env (Some feed) rt (Some v) (startResolution gs props)))]"
proof -
  let ?r0 = "startResolution gs props"
  define r1 where "r1 = unlessThrown (tier1 c env rt (Some v)) ?r0"
  define r2 where "r2 = unlessThrown (tier2 c env (Some feed) rt (Some v)) r1"
  define r3 where "r3 = unlessThrown (tier3 c env rt) r2"
  define r4 where "r4 = unlessThrown (tier4 c env (Some feed) rt) r3"
  have r4: "resolveTemplates c env (Some feed) rt (Some v) ?r0 = r4"
    by (simp add: resolveTemplates_def r1_def r2_def r3_def r4_def)
  have s1: "thrown r1 = None" "parsedTemplatesByRuntime r1 = None" "globalStateR r1 = gs"
    by (auto simp: r1_def unlessThrown_def tier1_def startResolution_def attemptCache_obs
        split: option.splits)
  have e2: "r2 = attemptCliFeed c env ''cliFeed'' feed v rt r1"
    using s1 v by (simp add: r2_def unlessThrown_def tier2_def)
  have s2: "thrown r2 = None" "parsedTemplatesByRuntime r2 = None" "globalStateR r2 = gs"
    "attempts r2 = attempts r1 @ [(''cliFeed'', None)]"
    using s1 by (simp_all add: e2 attemptCliFeed_fail [OF cleanup fail])
  have s3: "thrown r3 = None" "parsedTemplatesByRuntime r3 = None"
    "attempts r3 = attempts r2 @ (case gs of None \<Rightarrow> [] | Some g \<Rightarrow> [(''mismatchCache'', None)])"
    using s2 by (auto simp: r3_def unlessThrown_def tier3_def attemptCache_obs split: option.splits)
  have s4: "attempts r4 = attempts r3 @ [(''backupCliFeed'', parsedTemplatesByRuntime r4)]"
    using s3 attemptCliFeed_clean(2) [OF cleanup, of c "''backupCliFeed''" feed _ rt r3]
    by (simp add: r4_def unlessThrown_def tier4_def Let_def)
  show ?thesis
    unfolding r4 using s2(4) s3(3) s4 by simp
qed

lemma stops_after_cleanup_failure:
  assumes cleanup: "removeTempPath env = Inl e'" and v: "v \<noteq> []"
  shows "thrown (resolveTemplates c env (Some feed) rt (Some v) (startResolution gs props)) = Some e'"
    and "parsedTemplatesByRuntime
           (resolveTemplates c env (Some feed) rt (Some v) (startResolution gs props)) = None"
    and "\<exists>pre. attempts (resolveTemplates c env (Some feed) rt (Some v) (startResolution gs props))
           = pre @ [(''cliFeed'', None)]"
proof -
  let ?r0 = "startResolution gs props"
  define r1 where "r1 = unlessThrown (tier1 c env rt (Some v)) ?r0"
  define r2 where "r2 = unlessThrown (tier2 c env (Some feed) rt (Some v)) r1"
  have s1: "thrown r1 = None" "parsedTemplatesByRuntime r1 = None"
    by (auto simp: r1_def unlessThrown_def tier1_def startResolution_def attemptCache_obs
        split: option.splits)
  have e2: "r2 = attemptCliFeed c env ''cliFeed'' feed v rt r1"
    using s1 v by (simp add: r2_def unlessThrown_def tier2_def)
  have s2: "thrown r2 = Some e'" "parsedTemplatesByRuntime r2 = None"
    "attempts r2 = attempts r1 @ [(''cliFeed'', None)]"
    using s1 by (simp_all add: e2 attemptCliFeed_throw [OF cleanup])
  have r: "resolveTemplates c env (Some feed) rt (Some v) ?r0 = r2"
    using s2(1) by (simp add: resolveTemplates_def r1_def r2_def unlessThrown_def)
  show "thrown (resolveTemplates c env (Some feed) rt (Some v) ?r0) = Some e'"
    and "parsedTemplatesByRuntime (resolveTemplates c env (Some feed) rt (Some v) ?r0) = None"
    and "\<exists>pre. attempts (resolveTemplates c env (Some feed) rt (Some v) ?r0)
           = pre @ [(''cliFeed'', None)]"
    unfolding r using s2 by simp_all
qed

lemma storeResult_nonempty:
  assumes "\<forall>k ts. tm k = Some ts \<longrightarrow> ts \<noteq> []"
  shows "\<forall>k ts. fst (storeResult rt tm (resolveTemplates c env feed rt tv (startResolution gs props))) k
            = Some ts \<longrightarrow> ts \<noteq> []"
  using assms resolveTemplates_inv [of c env feed rt tv gs props]
  by (auto simp: storeResult_def fallbackInv_def split: option.splits if_splits)

lemma callback_nonempty:
  assumes "\<forall>k ts. fst s k = Some ts \<longrightarrow> ts \<noteq> []"
  shows "\<forall>k ts. fst (getTemplateDataCallback c env feed rt s) k = Some ts \<longrightarrow> ts \<noteq> []"
proof (cases s)
  case (fields tm gs setting tele)
  obtain tv setting' props where v: "tryGetTemplateVersionSetting env
                [''isActivationEvent'' \<mapsto> ''true'', ''runtime'' \<mapsto> rt] feed rt setting
      = (tv, setting', props)"
    by (cases "tryGetTemplateVersionSetting env
                [''isActivationEvent'' \<mapsto> ''true'', ''runtime'' \<mapsto> rt] feed rt setting") auto
  from assms fields have "\<forall>k ts. tm k = Some ts \<longrightarrow> ts \<noteq> []" by simp
  from storeResult_nonempty [OF this, of rt c env feed tv gs props]
  show ?thesis
    using fields v by (simp add: getTemplateDataCallback_def Let_def split: prod.splits)
qed

lemma fold_callback_nonempty:
  assumes "\<forall>k ts. fst s k = Some ts \<longrightarrow> ts \<noteq> []"
  shows "\<forall>k ts. fst (fold (getTemplateDataCallback c env feed) rts s) k = Some ts \<longrightarrow> ts \<noteq> []"
  using assms
proof (induction rts arbitrary: s)
  case Nil
  then show ?case by simp
next
  case (Cons rt rts)
  show ?case
    using Cons.IH [OF callback_nonempty [OF Cons.prems, of c env feed rt]] by simp
qed

lemma getTemplateData_nonempty:
  "templatesMap (fst (getTemplateData c env feed gs setting)) k = Some ts \<Longrightarrow> ts \<noteq> []"
  using fold_callback_nonempty [of "(Map.empty, gs, setting, [])" c env feed "ProjectRuntime_values c"]
  by (auto simp: getTemplateData_def split: prod.splits)

subsection \<open>The sample inputs evaluated\<close>

lemma sampleConstants_simps:
  "ProjectRuntime_one sampleConstants = ''~1''"
  "ProjectLanguage_Java sampleConstants = ''Java''"
  "ProjectLanguage_JavaScript sampleConstants = ''JavaScript''"
  "TemplateFilter_All sampleConstants = ''All''"
  "TemplateFilter_Core sampleConstants = ''Core''"
  "TemplateCategory_Core sampleConstants = ''$temp_category_core''"
  "v1ReleaseVersion sampleConstants = ''1.3.0''"
  by (simp_all add: sampleConstants_def)

lemma sampleEnv_simps:
  "tmpdir sampleEnv = ''/tmp''"
  "validateDotnetInstalled sampleEnv = Inr ()"
  "downloadFile sampleEnv url path = Inr ()"
  "extractZip sampleEnv file dir = Inr ()"
  "readJSON sampleEnv path = Inr (JObj [])"
  "executeDotnetTemplateCommand sampleEnv rt wd args = Inr ''[]''"
  "JSON_parse sampleEnv text = Inr (JArr [])"
  "parseScriptTemplates sampleEnv a b d = Inr sampleScriptTemplates"
  "parseDotnetTemplates sampleEnv a rt = Inr (sampleDotnetTemplates rt)"
  "pathExists sampleEnv path = Inr True"
  "remove sampleEnv path = Inr ()"
  by (simp_all add: sampleEnv_def)

lemma offlineEnv_simps:
  "validateDotnetInstalled offlineEnv = Inr ()"
  "downloadFile offlineEnv url path = Inl (Error ''getaddrinfo ENOTFOUND'')"
  "pathExists offlineEnv path = Inr True"
  "remove offlineEnv path = Inr ()"
  by (simp_all add: offlineEnv_def sampleEnv_def)

lemma sampleData_entries:
  "templatesMap sampleData ''beta'' = Some (sampleScriptTemplates @ sampleDotnetTemplates ''beta'')"
  "templatesMap sampleData ''~1'' = Some []"
  "templatesMap sampleData ''~3'' = None"
  by (simp_all add: sampleData_def)

lemma sample_removeTempPath: "removeTempPath sampleEnv = Inr ()"
  by (simp add: removeTempPath_def bindE_def sampleEnv_simps)

lemma offline_removeTempPath: "removeTempPath offlineEnv = Inr ()"
  by (simp add: removeTempPath_def bindE_def offlineEnv_simps)

lemma offline_feed_fails:
  "\<exists>e. feedTemplatesVerified c offlineEnv feed v rt = Inl e"
  by (cases "lookupRelease feed v")
     (simp_all add: feedTemplatesVerified_def downloadAndExtractTemplates_def bindE_def
        offlineEnv_simps)

lemma sample_verified:
  "verifyTemplatesByRuntime sampleConstants sampleEnv
     (sampleScriptTemplates @ sampleDotnetTemplates ''~1'') ''~1'' = Inr ()"
  by (simp add: verifyTemplatesByRuntime_def sampleEnv_simps sampleConstants_def
      verifiedV1Templates_def sampleScriptTemplates_def sampleDotnetTemplates_def mkTemplate_def
      Let_def)

lemma sample_lookupRelease:
  "lookupRelease sampleFeed ''1.3.0'' =
     Inr \<lparr>templateApiZip = ''https://feed/1.3.0/api.zip'',
          projectTemplates = ''https://feed/1.3.0/project.nupkg'',
          itemTemplates = ''https://feed/1.3.0/item.nupkg''\<rparr>"
  by (simp add: lookupRelease_def sampleFeed_def)

lemma sample_feed_ok:
  "feedTemplatesVerified sampleConstants sampleEnv sampleFeed ''1.3.0'' ''~1''
     = Inr (sampleScriptTemplates @ sampleDotnetTemplates ''~1'', JObj [], JObj [], JObj [], JArr [])"
  by (simp add: feedTemplatesVerified_def downloadAndExtractTemplates_def
      downloadAndExtractCSharpTemplates_def sample_lookupRelease bindE_def sampleEnv_simps
      sample_verified Let_def)

lemma sample_version_matches:
  "sampleMemento (templateVersionKey @ ''-'' @ ''~1'') = map_option JStr (Some ''1.3.0'')"
  by (simp add: sampleMemento_def templateVersionKey_def)

lemma sample_attempts:
  "attempts (resolveTemplates sampleConstants sampleEnv (Some sampleFeed) ''~1'' (Some ''1.3.0'')
      (startResolution (Some sampleMemento) Map.empty))
   = [(''matchingCache'', None),
      (''cliFeed'', Some (sampleScriptTemplates @ sampleDotnetTemplates ''~1''))]"
  using sample_version_matches
  by (simp add: resolveTemplates_def unlessThrown_def tier1_def tier2_def tier3_def tier4_def
      attemptCache_obs attemptCliFeed_ok [OF sample_removeTempPath sample_feed_ok]
      startResolution_def)

lemma sample_parsed:
  "parsedTemplatesByRuntime (resolveTemplates sampleConstants sampleEnv (Some sampleFeed) ''~1''
      (Some ''1.3.0'') (startResolution (Some sampleMemento) Map.empty))
   = Some (sampleScriptTemplates @ sampleDotnetTemplates ''~1'')"
  using sample_version_matches
  by (simp add: resolveTemplates_def unlessThrown_def tier1_def tier2_def tier3_def tier4_def
      attemptCache_obs attemptCliFeed_ok [OF sample_removeTempPath sample_feed_ok]
      startResolution_def)

lemma offline_attempts:
  "attempts (resolveTemplates sampleConstants offlineEnv (Some sampleFeed) ''~1'' (Some ''1.3.0'')
      (startResolution (Some sampleMemento) Map.empty))
   = [(''matchingCache'', None), (''cliFeed'', None), (''mismatchCache'', None),
      (''backupCliFeed'', None)]"
proof -
  obtain e where e: "feedTemplatesVerified sampleConstants offlineEnv sampleFeed ''1.3.0'' ''~1'' = Inl e"
    using offline_feed_fails by blast
  have v: "v1ReleaseVersion sampleConstants = ''1.3.0''" "ProjectRuntime_one sampleConstants = ''~1''"
    by (simp_all add: sampleConstants_def)
  show ?thesis
    using sample_version_matches
    by (simp add: resolveTemplates_def unlessThrown_def tier1_def tier2_def tier3_def tier4_def
        attemptCache_obs attemptCliFeed_fail [OF offline_removeTempPath e] v
        startResolution_def)
qed

lemma brokenCleanupEnv_simps:
  "validateDotnetInstalled brokenCleanupEnv = Inr ()"
  "downloadFile brokenCleanupEnv url path = Inl (Error ''getaddrinfo ENOTFOUND'')"
  "pathExists brokenCleanupEnv path = Inr True"
  "remove brokenCleanupEnv path = Inl (Error ''EPERM: operation not permitted'')"
  by (simp_all add: brokenCleanupEnv_def offlineEnv_def sampleEnv_def)

lemma broken_removeTempPath:
  "removeTempPath brokenCleanupEnv = Inl (Error ''EPERM: operation not permitted'')"
  by (simp add: removeTempPath_def bindE_def brokenCleanupEnv_simps)

lemma broken_feed_fails:
  "feedTemplatesVerified sampleConstants brokenCleanupEnv sampleFeed ''1.3.0'' ''~1''
     = Inl (Error ''getaddrinfo ENOTFOUND'')"
  by (simp add: feedTemplatesVerified_def downloadAndExtractTemplates_def bindE_def
      sample_lookupRelease brokenCleanupEnv_simps)

lemma broken_run:
  "thrown (resolveTemplates sampleConstants brokenCleanupEnv (Some sampleFeed) ''~1''
      (Some ''1.3.0'') (startResolution (Some sampleMemento) Map.empty))
     = Some (Error ''EPERM: operation not permitted'')"
  "attempts (resolveTemplates sampleConstants brokenCleanupEnv (Some sampleFeed) ''~1''
      (Some ''1.3.0'') (startResolution (Some sampleMemento) Map.empty))
     = [(''matchingCache'', None), (''cliFeed'', None)]"
  using sample_version_matches
  by (simp_all add: resolveTemplates_def unlessThrown_def tier1_def tier2_def tier3_def tier4_def
      attemptCache_obs attemptCliFeed_throw [OF broken_removeTempPath] startResolution_def)

lemma noDotnetEnv_simps:
  "tmpdir noDotnetEnv = ''/tmp''"
  "validateDotnetInstalled noDotnetEnv = Inl (Error ''spawn dotnet ENOENT'')"
  "downloadFile noDotnetEnv url path = Inr ()"
  "extractZip noDotnetEnv file dir = Inr ()"
  "readJSON noDotnetEnv path = Inr (JObj [])"
  "parseScriptTemplates noDotnetEnv a b d = Inr sampleScriptTemplates"
  "parseDotnetTemplates noDotnetEnv a rt = Inr []"
  "pathExists noDotnetEnv path = Inr True"
  "remove noDotnetEnv path = Inr ()"
  by (simp_all add: noDotnetEnv_def sampleEnv_def)

lemma noDotnet_removeTempPath: "removeTempPath noDotnetEnv = Inr ()"
  by (simp add: removeTempPath_def bindE_def noDotnetEnv_simps)

lemma verifiedV1_without_CSharp:
  "filter (\<lambda>i. \<not> includesJS i ''CSharp'') verifiedV1Templates =
     [''BlobTrigger-JavaScript'', ''GenericWebHook-JavaScript'', ''GitHubWebHook-JavaScript'',
      ''HttpTrigger-JavaScript'', ''HttpTriggerWithParameters-JavaScript'',
      ''ManualTrigger-JavaScript'', ''QueueTrigger-JavaScript'', ''TimerTrigger-JavaScript'']"
  unfolding includesJS_def verifiedV1Templates_def by code_simp

lemma noDotnet_verified:
  "verifyTemplatesByRuntime sampleConstants noDotnetEnv sampleScriptTemplates ''~1'' = Inr ()"
  by (simp add: verifyTemplatesByRuntime_def noDotnetEnv_simps sampleConstants_simps Let_def
      verifiedV1_without_CSharp)
     (simp add: sampleScriptTemplates_def mkTemplate_def)

lemma noDotnet_feed_ok:
  "feedTemplatesVerified sampleConstants noDotnetEnv sampleFeed ''1.3.0'' ''~1''
     = Inr (sampleScriptTemplates, JObj [], JObj [], JObj [], JArr [])"
  by (simp add: feedTemplatesVerified_def downloadAndExtractTemplates_def
      downloadAndExtractCSharpTemplates_def sample_lookupRelease bindE_def noDotnetEnv_simps
      noDotnet_verified Let_def)

lemma sample_javascript_all:
  "fst (getTemplates sampleConstants sampleData ''javascript'' (Some ''beta'') (Some ''All''))
     = Inr sampleScriptTemplates"
  by (simp add: getTemplates_def runtimeOrDefault_def sampleData_entries sampleConstants_simps
      sampleScriptTemplates_def sampleDotnetTemplates_def mkTemplate_def toLowerCase_def
      toLowerCaseChar_def Let_def)

section \<open>The claims\<close>

text \<open>
  Claim C1 (matching cache is used, no download). The code does not do this. At the sample
  persisted state the stored version for runtime \<open>''~1''\<close> equals the resolved version
  \<open>''1.3.0''\<close> and the cached values parse to twelve templates, yet
  \<^verbatim>\<open>tryGetParsedTemplateDataFromCache\<close> returns \<^verbatim>\<open>undefined\<close> and the run goes on to
  download from the feed.
\<close>

theorem cache_result_discarded:
  "sampleMemento (''templateVersion-~1'') = Some (JStr ''1.3.0'')
   \<and> cachedTemplatesParsed sampleConstants sampleEnv ''~1'' sampleMemento
       = Inr (sampleScriptTemplates @ sampleDotnetTemplates ''~1'')
   \<and> fst (tryGetParsedTemplateDataFromCache sampleConstants sampleEnv Map.empty ''~1'' sampleMemento)
       = None
   \<and> map fst (attempts (resolveTemplates sampleConstants sampleEnv (Some sampleFeed) ''~1''
        (Some ''1.3.0'') (startResolution (Some sampleMemento) Map.empty)))
       = [''matchingCache'', ''cliFeed'']"
proof -
  have k: "getRuntimeKey sampleConstants b ''~1'' = b" for b
    by (simp add: getRuntimeKey_def sampleConstants_def)
  have "cachedTemplatesParsed sampleConstants sampleEnv ''~1'' sampleMemento
       = Inr (sampleScriptTemplates @ sampleDotnetTemplates ''~1'')"
    by (simp add: cachedTemplatesParsed_def k sampleMemento_def resourcesKey_def templatesKey_def
        configKey_def dotnetTemplatesKey_def bindE_def sampleEnv_simps)
  moreover have "sampleMemento (''templateVersion-~1'') = Some (JStr ''1.3.0'')"
    by (simp add: sampleMemento_def)
  ultimately show ?thesis
    by (simp add: tryGetParsedTemplateDataFromCache_None sample_attempts)
qed

text \<open>
  Claim C2 (order of the sources). In every run of the four steps, for every runtime, feed,
  resolved version and persisted state, the sources called form a subsequence of matching
  cache, feed at the requested version, stale cache, feed at the backup version, and every
  call made before another call returned no result.
\<close>

theorem fallback_order:
  "subseq (map fst (attempts (resolveTemplates c env feed rt tv (startResolution gs props))))
     [''matchingCache'', ''cliFeed'', ''mismatchCache'', ''backupCliFeed'']
   \<and> (\<forall>i j. j < i \<and> i < length (attempts (resolveTemplates c env feed rt tv (startResolution gs props)))
         \<longrightarrow> snd (attempts (resolveTemplates c env feed rt tv (startResolution gs props)) ! j) = None)"
proof -
  let ?r = "resolveTemplates c env feed rt tv (startResolution gs props)"
  have inv: "fallbackInv [''matchingCache'', ''cliFeed'', ''mismatchCache'', ''backupCliFeed''] ?r"
    by (rule resolveTemplates_inv)
  have bl: "list_all (\<lambda>a. snd a = None) (butlast (attempts ?r))"
    using inv by (auto simp: fallbackInv_def list_all_iff split: option.splits dest: in_set_butlastD)
  have sub: "subseq (map fst (attempts ?r))
      [''matchingCache'', ''cliFeed'', ''mismatchCache'', ''backupCliFeed'']"
    using inv by (simp add: fallbackInv_def)
  have earlier: "snd (attempts ?r ! j) = None" if "j < i" "i < length (attempts ?r)" for i j
  proof -
    from that have j: "j < length (butlast (attempts ?r))" by simp
    then have "butlast (attempts ?r) ! j \<in> set (butlast (attempts ?r))" by (rule nth_mem)
    with bl have "snd (butlast (attempts ?r) ! j) = None" by (simp add: list_all_iff)
    with j show ?thesis by (simp add: nth_butlast)
  qed
  show ?thesis using sub earlier by blast
qed

theorem fallback_order_witness:
  "(2::nat) < 3
   \<and> 3 < length (attempts (resolveTemplates sampleConstants offlineEnv (Some sampleFeed) ''~1''
             (Some ''1.3.0'') (startResolution (Some sampleMemento) Map.empty)))
   \<and> snd (attempts (resolveTemplates sampleConstants offlineEnv (Some sampleFeed) ''~1''
             (Some ''1.3.0'') (startResolution (Some sampleMemento) Map.empty)) ! 2) = None
   \<and> subseq (map fst (attempts (resolveTemplates sampleConstants offlineEnv (Some sampleFeed) ''~1''
             (Some ''1.3.0'') (startResolution (Some sampleMemento) Map.empty))))
        [''matchingCache'', ''cliFeed'', ''mismatchCache'', ''backupCliFeed'']"
proof -
  have len: "3 < length (attempts (resolveTemplates sampleConstants offlineEnv (Some sampleFeed)
      ''~1'' (Some ''1.3.0'') (startResolution (Some sampleMemento) Map.empty)))"
    by (simp add: offline_attempts)
  note t = fallback_order [where c = sampleConstants and env = offlineEnv
      and feed = "Some sampleFeed" and rt = "''~1''" and tv = "Some ''1.3.0''"
      and gs = "Some sampleMemento" and props = Map.empty]
  from t have "(2::nat) < 3
      \<and> 3 < length (attempts (resolveTemplates sampleConstants offlineEnv (Some sampleFeed)
            ''~1'' (Some ''1.3.0'') (startResolution (Some sampleMemento) Map.empty)))
      \<longrightarrow> snd (attempts (resolveTemplates sampleConstants offlineEnv (Some sampleFeed) ''~1''
             (Some ''1.3.0'') (startResolution (Some sampleMemento) Map.empty)) ! 2) = None"
    by blast
  with t len show ?thesis by simp
qed

text \<open>
  Claim C3 (first non-empty result). When the run ends with a result, that list is not empty,
  it is what the last source called returned, every source called before returned nothing,
  and it is the list written to the templates map for the runtime; when the run ends without
  a result the map is left as it was and every source called returned nothing. No source
  ever returns an empty list, and the map that \<^verbatim>\<open>getTemplateData\<close> builds holds no empty
  list.
\<close>

theorem first_nonempty_result:
  "(case parsedTemplatesByRuntime (resolveTemplates c env feed rt tv (startResolution gs props)) of
      Some ts \<Rightarrow>
        fst (storeResult rt tm (resolveTemplates c env feed rt tv (startResolution gs props)))
          = tm(rt \<mapsto> ts)
        \<and> ts \<noteq> []
        \<and> attempts (resolveTemplates c env feed rt tv (startResolution gs props)) \<noteq> []
        \<and> snd (last (attempts (resolveTemplates c env feed rt tv (startResolution gs props))))
            = Some ts
        \<and> list_all (\<lambda>a. snd a = None)
            (butlast (attempts (resolveTemplates c env feed rt tv (startResolution gs props))))
    | None \<Rightarrow>
        fst (storeResult rt tm (resolveTemplates c env feed rt tv (startResolution gs props))) = tm
        \<and> list_all (\<lambda>a. snd a = None)
            (attempts (resolveTemplates c env feed rt tv (startResolution gs props))))
   \<and> (\<forall>a\<in>set (attempts (resolveTemplates c env feed rt tv (startResolution gs props))).
         snd a \<noteq> Some [])
   \<and> (\<forall>k ts. templatesMap (fst (getTemplateData c env feed gs setting)) k = Some ts \<longrightarrow> ts \<noteq> [])"
proof -
  let ?r = "resolveTemplates c env feed rt tv (startResolution gs props)"
  have inv: "fallbackInv [''matchingCache'', ''cliFeed'', ''mismatchCache'', ''backupCliFeed''] ?r"
    by (rule resolveTemplates_inv)
  have a: "case parsedTemplatesByRuntime ?r of
      Some ts \<Rightarrow> fst (storeResult rt tm ?r) = tm(rt \<mapsto> ts) \<and> ts \<noteq> [] \<and> attempts ?r \<noteq> []
        \<and> snd (last (attempts ?r)) = Some ts
        \<and> list_all (\<lambda>a. snd a = None) (butlast (attempts ?r))
    | None \<Rightarrow> fst (storeResult rt tm ?r) = tm \<and> list_all (\<lambda>a. snd a = None) (attempts ?r)"
    using inv by (auto simp: fallbackInv_def storeResult_def split: option.splits)
  have b: "snd a \<noteq> Some []" if "a \<in> set (attempts ?r)" for a
  proof (cases "parsedTemplatesByRuntime ?r")
    case None
    with inv that show ?thesis by (auto simp: fallbackInv_def list_all_iff)
  next
    case (Some ts)
    with inv have ne: "attempts ?r \<noteq> []" and l: "snd (last (attempts ?r)) = Some ts"
      and ts: "ts \<noteq> []" and bl: "list_all (\<lambda>a. snd a = None) (butlast (attempts ?r))"
      by (auto simp: fallbackInv_def)
    from ne have "attempts ?r = butlast (attempts ?r) @ [last (attempts ?r)]" by simp
    then have "a \<in> set (butlast (attempts ?r)) \<or> a = last (attempts ?r)"
      using that by (metis Un_iff empty_iff empty_set set_ConsD set_append)
    with bl l ts show ?thesis by (auto simp: list_all_iff)
  qed
  show ?thesis using a b getTemplateData_nonempty [of c env feed gs setting] by blast
qed

theorem first_nonempty_result_witness:
  "parsedTemplatesByRuntime (resolveTemplates sampleConstants sampleEnv (Some sampleFeed) ''~1''
      (Some ''1.3.0'') (startResolution (Some sampleMemento) Map.empty))
     = Some (sampleScriptTemplates @ sampleDotnetTemplates ''~1'')
   \<and> fst (storeResult ''~1'' Map.empty
        (resolveTemplates sampleConstants sampleEnv (Some sampleFeed) ''~1''
          (Some ''1.3.0'') (startResolution (Some sampleMemento) Map.empty)))
     = [''~1'' \<mapsto> sampleScriptTemplates @ sampleDotnetTemplates ''~1'']
   \<and> sampleScriptTemplates @ sampleDotnetTemplates ''~1'' \<noteq> []
   \<and> snd (last (attempts (resolveTemplates sampleConstants sampleEnv (Some sampleFeed) ''~1''
          (Some ''1.3.0'') (startResolution (Some sampleMemento) Map.empty))))
     = Some (sampleScriptTemplates @ sampleDotnetTemplates ''~1'')"
  using first_nonempty_result [where c = sampleConstants and env = sampleEnv
      and feed = "Some sampleFeed" and rt = "''~1''" and tv = "Some ''1.3.0''"
      and gs = "Some sampleMemento" and props = Map.empty and tm = Map.empty and setting = None]
    sample_parsed
  by simp

text \<open>
  Claim C4 (failures of the feed are caught), as amended. The failures of download,
  extraction, reading, parsing and verification are those of the \<^verbatim>\<open>try\<close> block,
  \<open>feedTemplatesVerified\<close>. When the removal of the temporary directory in the
  \<^verbatim>\<open>finally\<close> block does not throw, \<^verbatim>\<open>tryGetParsedTemplateDataFromCliFeed\<close> always
  returns, it returns \<^verbatim>\<open>undefined\<close> whenever one of these steps failed, no step of the
  callback of \<^verbatim>\<open>getTemplateData\<close> throws, and after a failure of the feed at the requested
  version the stale cache (when a persisted state was supplied) and the feed at the backup
  version are tried next. When that removal throws, its error leaves the function in place
  of the value, it leaves the callback, and no later source is tried. A missing .NET CLI is
  not a failure of the function: the download of the C# templates is skipped and gives the
  empty list. The claim as first stated fails: with a failed download and a failing removal
  the function throws, and without the .NET CLI it returns the script templates.
\<close>

theorem feed_failure_is_caught:
  "(removeTempPath env = Inr () \<longrightarrow>
      (\<exists>res. fst (tryGetParsedTemplateDataFromCliFeed c env props feed v rt gs) = Inr res)
    \<and> (\<forall>e. feedTemplatesVerified c env feed v rt = Inl e \<longrightarrow>
          fst (tryGetParsedTemplateDataFromCliFeed c env props feed v rt gs) = Inr None)
    \<and> thrown (resolveTemplates c env feedOpt rt tv (startResolution gs props)) = None
    \<and> (\<forall>e. feedTemplatesVerified c env feed v rt = Inl e \<and> v \<noteq> [] \<longrightarrow>
          (\<exists>pre. attempts (resolveTemplates c env (Some feed) rt (Some v) (startResolution gs props))
             = pre @ [(''cliFeed'', None)]
                 @ (case gs of None \<Rightarrow> [] | Some g \<Rightarrow> [(''mismatchCache'', None)])
                 @ [(''backupCliFeed'',
                     parsedTemplatesByRuntime
                       (resolveTemplates c env (Some feed) rt (Some v)
                          (startResolution gs props)))])))
   \<and> (\<forall>e'. removeTempPath env = Inl e' \<longrightarrow>
         fst (tryGetParsedTemplateDataFromCliFeed c env props feed v rt gs) = Inl e'
       \<and> (v \<noteq> [] \<longrightarrow>
            thrown (resolveTemplates c env (Some feed) rt (Some v) (startResolution gs props))
              = Some e'
          \<and> parsedTemplatesByRuntime
              (resolveTemplates c env (Some feed) rt (Some v) (startResolution gs props)) = None
          \<and> (\<exists>pre. attempts (resolveTemplates c env (Some feed) rt (Some v)
                                (startResolution gs props))
                 = pre @ [(''cliFeed'', None)])))
   \<and> (\<forall>d. validateDotnetInstalled env = Inl d \<longrightarrow>
         downloadAndExtractCSharpTemplates env feed v rt = Inr (JArr []))"
proof -
  have clean: "(\<exists>res. fst (tryGetParsedTemplateDataFromCliFeed c env props feed v rt gs) = Inr res)
    \<and> (\<forall>e. feedTemplatesVerified c env feed v rt = Inl e \<longrightarrow>
          fst (tryGetParsedTemplateDataFromCliFeed c env props feed v rt gs) = Inr None)
    \<and> thrown (resolveTemplates c env feedOpt rt tv (startResolution gs props)) = None
    \<and> (\<forall>e. feedTemplatesVerified c env feed v rt = Inl e \<and> v \<noteq> [] \<longrightarrow>
          (\<exists>pre. attempts (resolveTemplates c env (Some feed) rt (Some v) (startResolution gs props))
             = pre @ [(''cliFeed'', None)]
                 @ (case gs of None \<Rightarrow> [] | Some g \<Rightarrow> [(''mismatchCache'', None)])
                 @ [(''backupCliFeed'',
                     parsedTemplatesByRuntime
                       (resolveTemplates c env (Some feed) rt (Some v)
                          (startResolution gs props)))]))"
    if ok: "removeTempPath env = Inr ()"
  proof -
    have a: "\<exists>res. fst (tryGetParsedTemplateDataFromCliFeed c env props feed v rt gs) = Inr res"
    proof (cases "feedTemplatesVerified c env feed v rt")
      case (Inl e)
      then show ?thesis by (simp add: cliFeed_fail [OF ok])
    next
      case (Inr x)
      then show ?thesis by (cases x) (simp add: cliFeed_ok [OF ok])
    qed
    have b: "fst (tryGetParsedTemplateDataFromCliFeed c env props feed v rt gs) = Inr None"
      if "feedTemplatesVerified c env feed v rt = Inl e" for e
      by (simp add: cliFeed_fail [OF ok that])
    show ?thesis
      using a b resolveTemplates_not_thrown [OF ok, of c feedOpt rt tv gs props]
        degrades_after_feed_failure [OF ok, of c feed v rt _ gs props]
      by blast
  qed
  have dirty: "fst (tryGetParsedTemplateDataFromCliFeed c env props feed v rt gs) = Inl e'
       \<and> (v \<noteq> [] \<longrightarrow>
            thrown (resolveTemplates c env (Some feed) rt (Some v) (startResolution gs props))
              = Some e'
          \<and> parsedTemplatesByRuntime
              (resolveTemplates c env (Some feed) rt (Some v) (startResolution gs props)) = None
          \<and> (\<exists>pre. attempts (resolveTemplates c env (Some feed) rt (Some v)
                                (startResolution gs props))
                 = pre @ [(''cliFeed'', None)]))"
    if bad: "removeTempPath env = Inl e'" for e'
    using cliFeed_throw [OF bad, of c props feed v rt gs]
      stops_after_cleanup_failure [OF bad, of v c feed rt gs props]
    by blast
  have nodotnet: "downloadAndExtractCSharpTemplates env feed v rt = Inr (JArr [])"
    if "validateDotnetInstalled env = Inl d" for d
    using that by (simp add: downloadAndExtractCSharpTemplates_def)
  show ?thesis using clean dirty nodotnet by blast
qed

theorem feed_failure_is_caught_witness:
  "removeTempPath offlineEnv = Inr ()
   \<and> (\<exists>e. feedTemplatesVerified sampleConstants offlineEnv sampleFeed ''1.3.0'' ''~1'' = Inl e)
   \<and> fst (tryGetParsedTemplateDataFromCliFeed sampleConstants offlineEnv Map.empty sampleFeed
        ''1.3.0'' ''~1'' (Some sampleMemento)) = Inr None
   \<and> thrown (resolveTemplates sampleConstants offlineEnv (Some sampleFeed) ''~1'' (Some ''1.3.0'')
        (startResolution (Some sampleMemento) Map.empty)) = None
   \<and> validateDotnetInstalled noDotnetEnv = Inl (Error ''spawn dotnet ENOENT'')
   \<and> downloadAndExtractCSharpTemplates noDotnetEnv sampleFeed ''1.3.0'' ''~1'' = Inr (JArr [])
   \<and> removeTempPath brokenCleanupEnv = Inl (Error ''EPERM: operation not permitted'')
   \<and> fst (tryGetParsedTemplateDataFromCliFeed sampleConstants brokenCleanupEnv Map.empty
        sampleFeed ''1.3.0'' ''~1'' None) = Inl (Error ''EPERM: operation not permitted'')"
proof -
  note t = feed_failure_is_caught [where c = sampleConstants and env = offlineEnv
      and props = Map.empty and feed = sampleFeed and v = "''1.3.0''" and rt = "''~1''"
      and gs = "Some sampleMemento" and feedOpt = "Some sampleFeed" and tv = "Some ''1.3.0''"]
  note u = feed_failure_is_caught [where env = noDotnetEnv and feed = sampleFeed
      and v = "''1.3.0''" and rt = "''~1''"]
  have d: "validateDotnetInstalled noDotnetEnv = Inl (Error ''spawn dotnet ENOENT'')"
    by (simp add: noDotnetEnv_simps)
  from u d have nd: "downloadAndExtractCSharpTemplates noDotnetEnv sampleFeed ''1.3.0'' ''~1''
      = Inr (JArr [])" by blast
  note w = feed_failure_is_caught [where c = sampleConstants and env = brokenCleanupEnv
      and props = Map.empty and feed = sampleFeed and v = "''1.3.0''" and rt = "''~1''"
      and gs = None]
  from w broken_removeTempPath
  have br: "fst (tryGetParsedTemplateDataFromCliFeed sampleConstants brokenCleanupEnv Map.empty
        sampleFeed ''1.3.0'' ''~1'' None) = Inl (Error ''EPERM: operation not permitted'')"
    by blast
  from t offline_removeTempPath
    offline_feed_fails [of sampleConstants sampleFeed "''1.3.0''" "''~1''"]
  have off: "fst (tryGetParsedTemplateDataFromCliFeed sampleConstants offlineEnv Map.empty
        sampleFeed ''1.3.0'' ''~1'' (Some sampleMemento)) = Inr None
     \<and> thrown (resolveTemplates sampleConstants offlineEnv (Some sampleFeed) ''~1''
          (Some ''1.3.0'') (startResolution (Some sampleMemento) Map.empty)) = None"
    by blast
  from off d nd br broken_removeTempPath offline_removeTempPath
    offline_feed_fails [of sampleConstants sampleFeed "''1.3.0''" "''~1''"]
  show ?thesis by blast
qed

theorem feed_failure_propagates_counterexample:
  "feedTemplatesVerified sampleConstants brokenCleanupEnv sampleFeed ''1.3.0'' ''~1''
     = Inl (Error ''getaddrinfo ENOTFOUND'')
   \<and> fst (tryGetParsedTemplateDataFromCliFeed sampleConstants brokenCleanupEnv Map.empty
        sampleFeed ''1.3.0'' ''~1'' (Some sampleMemento))
     = Inl (Error ''EPERM: operation not permitted'')
   \<and> thrown (resolveTemplates sampleConstants brokenCleanupEnv (Some sampleFeed) ''~1''
        (Some ''1.3.0'') (startResolution (Some sampleMemento) Map.empty))
     = Some (Error ''EPERM: operation not permitted'')
   \<and> map fst (attempts (resolveTemplates sampleConstants brokenCleanupEnv (Some sampleFeed) ''~1''
        (Some ''1.3.0'') (startResolution (Some sampleMemento) Map.empty)))
     = [''matchingCache'', ''cliFeed'']
   \<and> validateDotnetInstalled noDotnetEnv = Inl (Error ''spawn dotnet ENOENT'')
   \<and> fst (tryGetParsedTemplateDataFromCliFeed sampleConstants noDotnetEnv Map.empty sampleFeed
        ''1.3.0'' ''~1'' None)
     = Inr (Some sampleScriptTemplates)"
  by (simp add: broken_feed_fails cliFeed_throw [OF broken_removeTempPath] broken_run
      noDotnetEnv_simps cliFeed_ok [OF noDotnet_removeTempPath noDotnet_feed_ok])

text \<open>
  Claim C5 (selection by language), as amended. For a language other than Java every
  template returned has a language tag that equals the requested language after both are
  put in lower case, and with the filter All the result is exactly the stored templates with
  such a tag. The claim as first stated, with equality of the strings themselves, fails:
  the request \<open>''javascript''\<close> returns the templates tagged \<open>''JavaScript''\<close>.
\<close>

theorem getTemplates_language_match:
  assumes "l \<noteq> ProjectLanguage_Java c"
      and "fst (getTemplates c td l r f) = Inr ts"
  shows "(\<forall>t\<in>set ts. toLowerCase (language t) = toLowerCase l)
         \<and> (f = Some (TemplateFilter_All c) \<longrightarrow>
              (\<exists>stored. templatesMap td (runtimeOrDefault c r) = Some stored
                 \<and> ts = filter (\<lambda>t. toLowerCase (language t) = toLowerCase l) stored))"
  using assms
  by (auto simp: getTemplates_def Let_def split: option.splits if_splits)

theorem getTemplates_language_match_witness:
  "''javascript'' \<noteq> ProjectLanguage_Java sampleConstants
   \<and> fst (getTemplates sampleConstants sampleData ''javascript'' (Some ''beta'') (Some ''All''))
       = Inr sampleScriptTemplates
   \<and> list_all (\<lambda>t. toLowerCase (language t) = toLowerCase ''javascript'') sampleScriptTemplates"
proof -
  have h1: "''javascript'' \<noteq> ProjectLanguage_Java sampleConstants"
    by (simp add: sampleConstants_simps)
  from getTemplates_language_match [OF h1 sample_javascript_all] h1 sample_javascript_all
  show ?thesis by (simp add: list_all_iff)
qed

theorem getTemplates_string_equality_counterexample:
  "''javascript'' \<noteq> ProjectLanguage_Java sampleConstants
   \<and> fst (getTemplates sampleConstants sampleData ''javascript'' (Some ''beta'') (Some ''All''))
       = Inr sampleScriptTemplates
   \<and> language (hd sampleScriptTemplates) = ''JavaScript''
   \<and> ''JavaScript'' \<noteq> ''javascript''"
  by (simp add: getTemplates_def runtimeOrDefault_def sampleConstants_def sampleData_def
      sampleScriptTemplates_def sampleDotnetTemplates_def mkTemplate_def toLowerCase_def Let_def
      toLowerCaseChar_def)

text \<open>
  Claim C6 (two runtime generations). With a language other than Java and a filter that is
  neither All nor Core (Verified, any other string, or none), \<^verbatim>\<open>getTemplates\<close> keeps the
  templates whose id is in the verified V1 list when the runtime is \<^verbatim>\<open>ProjectRuntime.one\<close>
  and in the verified V2 list for every other runtime. \<^verbatim>\<open>verifyTemplatesByRuntime\<close>
  succeeds exactly when every id of the list chosen in the same way is carried by a
  template, the C# ids being left out when the .NET CLI is not installed.
\<close>

theorem verified_list_by_runtime:
  "(\<forall>stored. l \<noteq> ProjectLanguage_Java c \<and> f \<noteq> Some (TemplateFilter_All c)
        \<and> f \<noteq> Some (TemplateFilter_Core c)
        \<and> templatesMap td (runtimeOrDefault c r) = Some stored \<longrightarrow>
      fst (getTemplates c td l r f) =
        Inr (filter (\<lambda>t. idT t \<in> set (if runtimeOrDefault c r = ProjectRuntime_one c
                                         then verifiedV1Templates else verifiedV2Templates))
               (filter (\<lambda>t. toLowerCase (language t) = toLowerCase l) stored)))
   \<and> (verifyTemplatesByRuntime c env ts rt = Inr () \<longleftrightarrow>
        (\<forall>v\<in>set (if rt = ProjectRuntime_one c then verifiedV1Templates else verifiedV2Templates).
           (validateDotnetInstalled env = Inr () \<or> \<not> includesJS v ''CSharp'') \<longrightarrow>
           v \<in> idT ` set ts))"
proof -
  have a: "fst (getTemplates c td l r f) =
        Inr (filter (\<lambda>t. idT t \<in> set (if runtimeOrDefault c r = ProjectRuntime_one c
                                         then verifiedV1Templates else verifiedV2Templates))
               (filter (\<lambda>t. toLowerCase (language t) = toLowerCase l) stored))"
    if "l \<noteq> ProjectLanguage_Java c" "f \<noteq> Some (TemplateFilter_All c)"
       "f \<noteq> Some (TemplateFilter_Core c)" "templatesMap td (runtimeOrDefault c r) = Some stored"
    for stored
    using that
    by (simp add: getTemplates_def Let_def truthyStr_find_iff verifiedV1_no_empty
        verifiedV2_no_empty)
  have b: "verifyTemplatesByRuntime c env ts rt = Inr () \<longleftrightarrow>
        (\<forall>v\<in>set (if rt = ProjectRuntime_one c then verifiedV1Templates else verifiedV2Templates).
           (validateDotnetInstalled env = Inr () \<or> \<not> includesJS v ''CSharp'') \<longrightarrow>
           v \<in> idT ` set ts)"
    by (cases "validateDotnetInstalled env")
       (auto simp: verifyTemplatesByRuntime_def Let_def verifyLoop_ok_iff)
  show ?thesis using a b by blast
qed

theorem verified_list_by_runtime_witness:
  "''C#'' \<noteq> ProjectLanguage_Java sampleConstants
   \<and> templatesMap sampleData (runtimeOrDefault sampleConstants (Some ''beta''))
       = Some (sampleScriptTemplates @ sampleDotnetTemplates ''beta'')
   \<and> fst (getTemplates sampleConstants sampleData ''C#'' (Some ''beta'') None)
       = Inr (sampleDotnetTemplates ''beta'')
   \<and> verifyTemplatesByRuntime sampleConstants sampleEnv
        (sampleScriptTemplates @ sampleDotnetTemplates ''~1'') ''~1'' = Inr ()
   \<and> ''Azure.Function.CSharp.HttpTrigger.1.x''
        \<in> idT ` set (sampleScriptTemplates @ sampleDotnetTemplates ''~1'')"
proof -
  have a: "templatesMap sampleData (runtimeOrDefault sampleConstants (Some ''beta''))
     = Some (sampleScriptTemplates @ sampleDotnetTemplates ''beta'')"
    by (simp add: runtimeOrDefault_def sampleData_entries)
  have l: "''C#'' \<noteq> ProjectLanguage_Java sampleConstants"
    by (simp add: sampleConstants_simps)
  have f: "(None :: string option) \<noteq> Some (TemplateFilter_All sampleConstants)"
    "(None :: string option) \<noteq> Some (TemplateFilter_Core sampleConstants)"
    by simp_all
  note t = verified_list_by_runtime [where l = "''C#''" and c = sampleConstants and f = None
      and td = sampleData and r = "Some ''beta''" and env = sampleEnv
      and ts = "sampleScriptTemplates @ sampleDotnetTemplates ''~1''" and rt = "''~1''"]
  from t l f a have g: "fst (getTemplates sampleConstants sampleData ''C#'' (Some ''beta'') None) =
        Inr (filter (\<lambda>t. idT t \<in> set (if runtimeOrDefault sampleConstants (Some ''beta'')
                                            = ProjectRuntime_one sampleConstants
                                         then verifiedV1Templates else verifiedV2Templates))
               (filter (\<lambda>t. toLowerCase (language t) = toLowerCase ''C#'')
                  (sampleScriptTemplates @ sampleDotnetTemplates ''beta'')))"
    by blast
  have g': "fst (getTemplates sampleConstants sampleData ''C#'' (Some ''beta'') None)
       = Inr (sampleDotnetTemplates ''beta'')"
    unfolding g
    by (simp add: runtimeOrDefault_def sampleConstants_simps verifiedV2Templates_def
        sampleScriptTemplates_def sampleDotnetTemplates_def mkTemplate_def toLowerCase_def
        toLowerCaseChar_def Let_def)
  from t sample_verified
  have v: "''Azure.Function.CSharp.HttpTrigger.1.x''
        \<in> idT ` set (sampleScriptTemplates @ sampleDotnetTemplates ''~1'')"
    by (simp add: sampleConstants_simps verifiedV1Templates_def sampleEnv_simps)
  from l a g' sample_verified v show ?thesis by blast
qed

text \<open>
  Claim C7 (\<^verbatim>\<open>getTemplates\<close> only reads). A call leaves the object as it was, a list it
  returns is a subsequence of the list stored for the runtime, and the same call on the
  object left by the first call gives the same result.
\<close>

theorem getTemplates_read_only:
  "snd (getTemplates c td l r f) = td
   \<and> (\<forall>ts. fst (getTemplates c td l r f) = Inr ts \<longrightarrow>
         (\<exists>stored. templatesMap td (runtimeOrDefault c r) = Some stored \<and> subseq ts stored))
   \<and> getTemplates c (snd (getTemplates c td l r f)) l r f = getTemplates c td l r f"
proof -
  have frame: "snd (getTemplates c td l r f) = td"
    by (simp add: getTemplates_def Let_def split: option.splits)
  have sub: "\<exists>stored. templatesMap td (runtimeOrDefault c r) = Some stored \<and> subseq ts stored"
    if "fst (getTemplates c td l r f) = Inr ts" for ts
    using that
    by (auto simp: getTemplates_def Let_def split: option.splits if_splits
        intro: subseq_order.order_trans [OF subseq_filter_left subseq_filter_left])
  show ?thesis using frame sub by simp
qed

theorem getTemplates_read_only_witness:
  "fst (getTemplates sampleConstants sampleData ''javascript'' (Some ''beta'') (Some ''All''))
     = Inr sampleScriptTemplates
   \<and> templatesMap sampleData (runtimeOrDefault sampleConstants (Some ''beta''))
       = Some (sampleScriptTemplates @ sampleDotnetTemplates ''beta'')
   \<and> subseq sampleScriptTemplates (sampleScriptTemplates @ sampleDotnetTemplates ''beta'')
   \<and> snd (getTemplates sampleConstants sampleData ''javascript'' (Some ''beta'') (Some ''All''))
       = sampleData"
proof -
  have a: "templatesMap sampleData (runtimeOrDefault sampleConstants (Some ''beta''))
     = Some (sampleScriptTemplates @ sampleDotnetTemplates ''beta'')"
    by (simp add: runtimeOrDefault_def sampleData_entries)
  from getTemplates_read_only [where c = sampleConstants and td = sampleData
      and l = "''javascript''" and r = "Some ''beta''" and f = "Some ''All''"]
    sample_javascript_all a
  show ?thesis by auto
qed




text \<open>
  Claim C9 (Java). For the language Java the result does not depend on the filter, and with
  an entry for the runtime it is exactly the stored templates tagged JavaScript whose id up
  to the first \<open>-\<close> is HttpTrigger, BlobTrigger, QueueTrigger or TimerTrigger.
\<close>

theorem getTemplates_Java:
  "getTemplates c td (ProjectLanguage_Java c) r f = getTemplates c td (ProjectLanguage_Java c) r f'
   \<and> (\<forall>stored. templatesMap td (runtimeOrDefault c r) = Some stored \<longrightarrow>
         fst (getTemplates c td (ProjectLanguage_Java c) r f) =
           Inr (filter (\<lambda>t. language t = ProjectLanguage_JavaScript c
                            \<and> takeWhile (\<lambda>ch. ch \<noteq> CHR ''-'') (idT t)
                                \<in> {''HttpTrigger'', ''BlobTrigger'', ''QueueTrigger'', ''TimerTrigger''})
                  stored))"
proof -
  have m: "truthyStr (find (\<lambda>vt. vt = x) verifiedJavaTemplates)
           \<longleftrightarrow> x \<in> {''HttpTrigger'', ''BlobTrigger'', ''QueueTrigger'', ''TimerTrigger''}" for x
    using truthyStr_find_iff [OF verifiedJava_no_empty, of x]
    by (simp add: verifiedJavaTemplates_def)
  show ?thesis
    by (simp add: getTemplates_def runtimeOrDefault_def Let_def m
        removeLanguageFromId_takeWhile split: option.splits)
qed

theorem getTemplates_Java_witness:
  "templatesMap sampleData (runtimeOrDefault sampleConstants (Some ''beta''))
     = Some (sampleScriptTemplates @ sampleDotnetTemplates ''beta'')
   \<and> map idT (projr (fst (getTemplates sampleConstants sampleData
        (ProjectLanguage_Java sampleConstants) (Some ''beta'') (Some ''All''))))
     = [''BlobTrigger-JavaScript'', ''HttpTrigger-JavaScript'', ''QueueTrigger-JavaScript'',
        ''TimerTrigger-JavaScript'']"
proof -
  have a: "templatesMap sampleData (runtimeOrDefault sampleConstants (Some ''beta''))
     = Some (sampleScriptTemplates @ sampleDotnetTemplates ''beta'')"
    by (simp add: runtimeOrDefault_def sampleData_entries)
  from getTemplates_Java [where c = sampleConstants and td = sampleData
      and r = "Some ''beta''" and f = "Some ''All''" and f' = None] a
  have "fst (getTemplates sampleConstants sampleData (ProjectLanguage_Java sampleConstants)
          (Some ''beta'') (Some ''All'')) =
        Inr (filter (\<lambda>t. language t = ProjectLanguage_JavaScript sampleConstants
                        \<and> takeWhile (\<lambda>ch. ch \<noteq> CHR ''-'') (idT t)
                            \<in> {''HttpTrigger'', ''BlobTrigger'', ''QueueTrigger'', ''TimerTrigger''})
               (sampleScriptTemplates @ sampleDotnetTemplates ''beta''))"
    by blast
  with a show ?thesis
    by (simp add: sampleConstants_simps sampleScriptTemplates_def sampleDotnetTemplates_def
        mkTemplate_def Let_def)
qed

text \<open>
  Claim C10 (the cache is written only after verification), as amended. When download,
  extraction, reading, parsing or verification fails, the persisted state is unchanged and
  no list is returned: \<^verbatim>\<open>undefined\<close> is returned when the removal of the temporary
  directory in the \<^verbatim>\<open>finally\<close> block succeeds, and the error of that removal is thrown
  when it fails. A persisted state that differs afterwards means that every one of these
  steps succeeded, and it then differs by the five entries for version, raw templates,
  config, resources and dotnet templates. The claim as first stated, with \<^verbatim>\<open>undefined\<close>
  returned after every failing step, fails when the download and the removal both fail.
\<close>

theorem cache_written_only_after_verification:
  "(\<forall>e. feedTemplatesVerified c env feed v rt = Inl e \<longrightarrow>
        fst (snd (tryGetParsedTemplateDataFromCliFeed c env props feed v rt gs)) = gs
      \<and> (\<forall>ts. fst (tryGetParsedTemplateDataFromCliFeed c env props feed v rt gs) \<noteq> Inr (Some ts))
      \<and> (removeTempPath env = Inr () \<longrightarrow>
           fst (tryGetParsedTemplateDataFromCliFeed c env props feed v rt gs) = Inr None)
      \<and> (\<forall>e'. removeTempPath env = Inl e' \<longrightarrow>
           fst (tryGetParsedTemplateDataFromCliFeed c env props feed v rt gs) = Inl e'))
   \<and> (fst (snd (tryGetParsedTemplateDataFromCliFeed c env props feed v rt gs)) \<noteq> gs \<longrightarrow>
        (\<exists>rel sts dts rawT rawC rawR rawCs.
           lookupRelease feed v = Inr rel
         \<and> downloadAndExtractTemplates env (templateApiZip rel) v = Inr ()
         \<and> downloadAndExtractCSharpTemplates env feed v rt = Inr rawCs
         \<and> readJSON env (pathJoin [tempPath env, ''resources'', ''Resources.json'']) = Inr rawR
         \<and> readJSON env (pathJoin [tempPath env, ''templates'', ''templates.json'']) = Inr rawT
         \<and> readJSON env (pathJoin [tempPath env, ''bindings'', ''bindings.json'']) = Inr rawC
         \<and> parseScriptTemplates env rawR rawT rawC = Inr sts
         \<and> parseDotnetTemplates env rawCs rt = Inr dts
         \<and> verifyTemplatesByRuntime c env (sts @ dts) rt = Inr ()
         \<and> fst (snd (tryGetParsedTemplateDataFromCliFeed c env props feed v rt gs)) =
             map_option
               (\<lambda>m. m(templateVersionKey @ ''-'' @ rt \<mapsto> JStr v,
                       getRuntimeKey c templatesKey rt \<mapsto> rawT,
                       getRuntimeKey c configKey rt \<mapsto> rawC,
                       getRuntimeKey c resourcesKey rt \<mapsto> rawR,
                       getRuntimeKey c dotnetTemplatesKey rt \<mapsto> rawCs)) gs))"
proof -
  let ?F = "tryGetParsedTemplateDataFromCliFeed c env props feed v rt gs"
  have a: "fst (snd ?F) = gs \<and> (\<forall>ts. fst ?F \<noteq> Inr (Some ts))
           \<and> (removeTempPath env = Inr () \<longrightarrow> fst ?F = Inr None)
           \<and> (\<forall>e'. removeTempPath env = Inl e' \<longrightarrow> fst ?F = Inl e')"
    if "feedTemplatesVerified c env feed v rt = Inl e" for e
    using that
    by (auto simp: tryGetParsedTemplateDataFromCliFeed_def Let_def split: sum.splits)
  have b: "\<exists>rel sts dts rawT rawC rawR rawCs.
           lookupRelease feed v = Inr rel
         \<and> downloadAndExtractTemplates env (templateApiZip rel) v = Inr ()
         \<and> downloadAndExtractCSharpTemplates env feed v rt = Inr rawCs
         \<and> readJSON env (pathJoin [tempPath env, ''resources'', ''Resources.json'']) = Inr rawR
         \<and> readJSON env (pathJoin [tempPath env, ''templates'', ''templates.json'']) = Inr rawT
         \<and> readJSON env (pathJoin [tempPath env, ''bindings'', ''bindings.json'']) = Inr rawC
         \<and> parseScriptTemplates env rawR rawT rawC = Inr sts
         \<and> parseDotnetTemplates env rawCs rt = Inr dts
         \<and> verifyTemplatesByRuntime c env (sts @ dts) rt = Inr ()
         \<and> fst (snd ?F) =
             map_option
               (\<lambda>m. m(templateVersionKey @ ''-'' @ rt \<mapsto> JStr v,
                       getRuntimeKey c templatesKey rt \<mapsto> rawT,
                       getRuntimeKey c configKey rt \<mapsto> rawC,
                       getRuntimeKey c resourcesKey rt \<mapsto> rawR,
                       getRuntimeKey c dotnetTemplatesKey rt \<mapsto> rawCs)) gs"
    if changed: "fst (snd ?F) \<noteq> gs"
  proof (cases "feedTemplatesVerified c env feed v rt")
    case (Inl e)
    with a changed show ?thesis by blast
  next
    case (Inr x)
    obtain ts rawT rawC rawR rawCs where x: "x = (ts, rawT, rawC, rawR, rawCs)"
      by (cases x) auto
    from Inr x have ok: "feedTemplatesVerified c env feed v rt = Inr (ts, rawT, rawC, rawR, rawCs)"
      by simp
    have w: "fst (snd ?F) =
             map_option
               (\<lambda>m. m(templateVersionKey @ ''-'' @ rt \<mapsto> JStr v,
                       getRuntimeKey c templatesKey rt \<mapsto> rawT,
                       getRuntimeKey c configKey rt \<mapsto> rawC,
                       getRuntimeKey c resourcesKey rt \<mapsto> rawR,
                       getRuntimeKey c dotnetTemplatesKey rt \<mapsto> rawCs)) gs"
      using ok by (simp add: tryGetParsedTemplateDataFromCliFeed_def Let_def split: sum.splits)
    from feedTemplatesVerified_steps [OF ok] w show ?thesis by blast
  qed
  show ?thesis using a b by blast
qed

theorem cache_written_only_after_verification_witness:
  "(\<exists>e. feedTemplatesVerified sampleConstants offlineEnv sampleFeed ''1.3.0'' ''~1'' = Inl e)
   \<and> removeTempPath offlineEnv = Inr ()
   \<and> fst (snd (tryGetParsedTemplateDataFromCliFeed sampleConstants offlineEnv Map.empty sampleFeed
        ''1.3.0'' ''~1'' (Some sampleMemento))) = Some sampleMemento
   \<and> fst (tryGetParsedTemplateDataFromCliFeed sampleConstants offlineEnv Map.empty sampleFeed
        ''1.3.0'' ''~1'' (Some sampleMemento)) = Inr None
   \<and> removeTempPath brokenCleanupEnv = Inl (Error ''EPERM: operation not permitted'')
   \<and> fst (tryGetParsedTemplateDataFromCliFeed sampleConstants brokenCleanupEnv Map.empty
        sampleFeed ''1.3.0'' ''~1'' (Some sampleMemento))
       = Inl (Error ''EPERM: operation not permitted'')"
proof -
  from cache_written_only_after_verification [where c = sampleConstants and env = offlineEnv
      and feed = sampleFeed and v = "''1.3.0''" and rt = "''~1''" and props = Map.empty
      and gs = "Some sampleMemento"]
    offline_removeTempPath
    offline_feed_fails [of sampleConstants sampleFeed "''1.3.0''" "''~1''"]
  have off: "fst (snd (tryGetParsedTemplateDataFromCliFeed sampleConstants offlineEnv Map.empty
        sampleFeed ''1.3.0'' ''~1'' (Some sampleMemento))) = Some sampleMemento
     \<and> fst (tryGetParsedTemplateDataFromCliFeed sampleConstants offlineEnv Map.empty sampleFeed
        ''1.3.0'' ''~1'' (Some sampleMemento)) = Inr None"
    by blast
  from cache_written_only_after_verification [where c = sampleConstants
      and env = brokenCleanupEnv and feed = sampleFeed and v = "''1.3.0''" and rt = "''~1''"
      and props = Map.empty and gs = "Some sampleMemento"]
    broken_removeTempPath broken_feed_fails
  have br: "fst (tryGetParsedTemplateDataFromCliFeed sampleConstants brokenCleanupEnv Map.empty
        sampleFeed ''1.3.0'' ''~1'' (Some sampleMemento))
       = Inl (Error ''EPERM: operation not permitted'')"
    by blast
  from off br offline_removeTempPath broken_removeTempPath
    offline_feed_fails [of sampleConstants sampleFeed "''1.3.0''" "''~1''"]
  show ?thesis by blast
qed

theorem cache_atomicity_counterexample:
  "feedTemplatesVerified sampleConstants brokenCleanupEnv sampleFeed ''1.3.0'' ''~1''
     = Inl (Error ''getaddrinfo ENOTFOUND'')
   \<and> fst (tryGetParsedTemplateDataFromCliFeed sampleConstants brokenCleanupEnv Map.empty
        sampleFeed ''1.3.0'' ''~1'' (Some sampleMemento))
     = Inl (Error ''EPERM: operation not permitted'')
   \<and> fst (tryGetParsedTemplateDataFromCliFeed sampleConstants brokenCleanupEnv Map.empty
        sampleFeed ''1.3.0'' ''~1'' (Some sampleMemento))
     \<noteq> Inr None
   \<and> fst (snd (tryGetParsedTemplateDataFromCliFeed sampleConstants brokenCleanupEnv Map.empty
        sampleFeed ''1.3.0'' ''~1'' (Some sampleMemento)))
     = Some sampleMemento"
  by (simp add: broken_feed_fails cliFeed_throw [OF broken_removeTempPath]
      tryGetParsedTemplateDataFromCliFeed_def Let_def broken_removeTempPath)

end
